theory Spec2Isabelle
  imports Complex_Main
begin

section \<open>JavaScript strings\<close>

text \<open>
  A JavaScript string is a sequence of UTF-16 code units; \<open>length\<close>, \<open>substring\<close>,
  \<open>trim\<close> and a regular expression without the \<open>u\<close> flag all work on code units.
  A code unit is modelled by its number. \<open>js\<close> turns an ASCII literal of the source
  into its code units.
\<close>

type_synonym jsstring = "nat list"

definition js :: "string \<Rightarrow> jsstring" where
  "js s = map of_char s"

text \<open>
  The characters matched by \<open>\s\<close> and stripped by \<open>String.prototype.trim\<close>:
  the WhiteSpace and LineTerminator code points of ECMAScript.
\<close>

definition is_space :: "nat \<Rightarrow> bool" where
  "is_space c \<longleftrightarrow>
     c \<in> {9, 10, 11, 12, 13, 32, 160, 5760, 8232, 8233, 8239, 8287, 12288, 65279}
     \<or> (8192 \<le> c \<and> c \<le> 8202)"

definition trim :: "jsstring \<Rightarrow> jsstring" where
  "trim s = rev (dropWhile is_space (rev (dropWhile is_space s)))"

definition is_upper :: "nat \<Rightarrow> bool" where
  "is_upper c \<longleftrightarrow> 65 \<le> c \<and> c \<le> 90"

definition is_lower :: "nat \<Rightarrow> bool" where
  "is_lower c \<longleftrightarrow> 97 \<le> c \<and> c \<le> 122"

definition is_digit :: "nat \<Rightarrow> bool" where
  "is_digit c \<longleftrightarrow> 48 \<le> c \<and> c \<le> 57"

section \<open>Regular expressions\<close>

text \<open>
  The patterns of \<open>auth.js\<close> use character classes, concatenation and \<open>+\<close> only.
  \<open>test\<close> is decided by derivatives; \<open>search\<close> is \<open>test\<close> for a pattern
  without anchors, which may match anywhere in the subject.
\<close>

datatype rx =
    Fail
  | Eps
  | Cls "nat \<Rightarrow> bool"
  | Seq rx rx
  | Alt rx rx
  | Rep rx

definition Rep1 :: "rx \<Rightarrow> rx" where
  "Rep1 r = Seq r (Rep r)"

fun nullable :: "rx \<Rightarrow> bool" where
  "nullable Fail = False"
| "nullable Eps = True"
| "nullable (Cls P) = False"
| "nullable (Seq r s) = (nullable r \<and> nullable s)"
| "nullable (Alt r s) = (nullable r \<or> nullable s)"
| "nullable (Rep r) = True"

fun deriv :: "nat \<Rightarrow> rx \<Rightarrow> rx" where
  "deriv c Fail = Fail"
| "deriv c Eps = Fail"
| "deriv c (Cls P) = (if P c then Eps else Fail)"
| "deriv c (Seq r s) =
     (if nullable r then Alt (Seq (deriv c r) s) (deriv c s) else Seq (deriv c r) s)"
| "deriv c (Alt r s) = Alt (deriv c r) (deriv c s)"
| "deriv c (Rep r) = Seq (deriv c r) (Rep r)"

definition anchored_test :: "rx \<Rightarrow> jsstring \<Rightarrow> bool" where
  "anchored_test r s = nullable (foldl (\<lambda>q c. deriv c q) r s)"

definition search :: "(nat \<Rightarrow> bool) \<Rightarrow> jsstring \<Rightarrow> bool" where
  "search P s = list_ex P s"

section \<open>Signup validation (auth.js)\<close>

text \<open>\<open>/[^\s@]/\<close>\<close>

definition addr_char :: "nat \<Rightarrow> bool" where
  "addr_char c \<longleftrightarrow> \<not> is_space c \<and> c \<noteq> 64"

text \<open>\<open>/^[^\s@]+@[^\s@]+\.[^\s@]+$/\<close>\<close>

definition email_rx :: rx where
  "email_rx =
     Seq (Rep1 (Cls addr_char))
       (Seq (Cls (\<lambda>c. c = 64))
         (Seq (Rep1 (Cls addr_char))
           (Seq (Cls (\<lambda>c. c = 46))
             (Rep1 (Cls addr_char)))))"

text \<open>
  \<^verbatim>\<open>function strength(pw) {
    let s=0; if(pw.length>=6)s++; if(/[A-Z]/.test(pw))s++; if(/[a-z]/.test(pw))s++;
    if(/\d/.test(pw))s++; if(/[^A-Za-z0-9]/.test(pw))s++;
    return Math.min(s,5);
  }\<close>
\<close>

definition strength :: "jsstring \<Rightarrow> nat" where
  "strength pw =
     (let s = 0;
          s = (if length pw \<ge> 6 then s + 1 else s);
          s = (if search is_upper pw then s + 1 else s);
          s = (if search is_lower pw then s + 1 else s);
          s = (if search is_digit pw then s + 1 else s);
          s = (if search (\<lambda>c. \<not> (is_upper c \<or> is_lower c \<or> is_digit c)) pw then s + 1 else s)
      in min s 5)"

text \<open>
  The part of the document that \<open>validateSignup\<close> reads and writes: the three signup
  inputs, the strength bar (absent when \<open>#pwBar\<close> is not found; its width is kept as
  the percentage \<open>(pwScore/5)*100\<close>) and the disabled flag of the signup button.
\<close>

record signup_dom =
  signupEmail :: jsstring
  signupUsername :: jsstring
  signupPassword :: jsstring
  pwBar :: "rat option"
  signupBtn_disabled :: bool

definition validateSignup :: "signup_dom \<Rightarrow> signup_dom" where
  "validateSignup d =
     (let email = trim (signupEmail d);
          user = trim (signupUsername d);
          pw = signupPassword d;
          emailOk = anchored_test email_rx email;
          userOk = (length user \<ge> 3);
          pwScore = strength pw;
          d = (case pwBar d of None \<Rightarrow> d
               | Some _ \<Rightarrow> d\<lparr>pwBar := Some ((of_nat pwScore / 5) * 100)\<rparr>)
      in d\<lparr>signupBtn_disabled := \<not> (emailOk \<and> userOk \<and> pwScore \<ge> 3)\<rparr>)"

text \<open>
  The validity invariant of signup credentials in the words of the specification:
  one point for each of the five criteria, capped at 5; an address is a non-empty local
  part, \<open>@\<close>, a non-empty domain, a dot and a non-empty rest, none of them with
  white space or \<open>@\<close>.
\<close>

definition criteria :: "jsstring \<Rightarrow> bool list" where
  "criteria pw =
     [length pw \<ge> 6,
      list_ex is_upper pw,
      list_ex is_lower pw,
      list_ex is_digit pw,
      list_ex (\<lambda>c. \<not> (is_upper c \<or> is_lower c \<or> is_digit c)) pw]"

definition strength_spec :: "jsstring \<Rightarrow> nat" where
  "strength_spec pw = min 5 (length (filter (\<lambda>b. b) (criteria pw)))"

definition address_part :: "jsstring \<Rightarrow> bool" where
  "address_part w \<longleftrightarrow> w \<noteq> [] \<and> list_all addr_char w"

definition address_pattern :: "jsstring \<Rightarrow> bool" where
  "address_pattern s \<longleftrightarrow>
     (\<exists>a b c. s = a @ [64] @ b @ [46] @ c \<and> address_part a \<and> address_part b \<and> address_part c)"

text \<open>The language of a pattern, against which the derivative matcher is verified.\<close>

inductive_set star :: "jsstring set \<Rightarrow> jsstring set" for L where
  nil: "[] \<in> star L"
| app: "u \<in> L \<Longrightarrow> v \<in> star L \<Longrightarrow> u @ v \<in> star L"

fun lang :: "rx \<Rightarrow> jsstring set" where
  "lang Fail = {}"
| "lang Eps = {[]}"
| "lang (Cls P) = {[c] | c. P c}"
| "lang (Seq r s) = {u @ v | u v. u \<in> lang r \<and> v \<in> lang s}"
| "lang (Alt r s) = lang r \<union> lang s"
| "lang (Rep r) = star (lang r)"

section \<open>Values, exceptions and the platform\<close>

text \<open>
  A parsed JSON value. \<open>'n\<close> is the platform's number type (an IEEE double in a
  browser); the program only tests a number for truthiness and turns it into text, and
  both are taken from the platform. An object is the list of its own properties, and a
  read takes the first entry for a key. A JavaScript value that may be \<open>undefined\<close>
  is an option: \<open>None\<close> is \<open>undefined\<close>, \<open>Some JNull\<close> is \<open>null\<close>.
\<close>

datatype 'n json =
    JNull
  | JBool bool
  | JNum 'n
  | JStr jsstring
  | JArr "'n json list"
  | JObj "(jsstring \<times> 'n json) list"

text \<open>
  The platform: the number that an integer literal of the program denotes, whether a
  number is truthy (neither zero nor \<open>NaN\<close>), \<open>String(n)\<close> of a number,
  \<open>Number(v).toFixed(2)\<close> of a value, and the messages of the exceptions that the
  platform raises itself.

  Exceptions. \<open>Error m\<close> is \<open>new Error(m)\<close> of the program. The others are raised
  by the platform, which also chooses their message: reading a body that was read
  before, \<open>JSON.parse\<close> of a body that is not JSON, reading a property of \<open>null\<close>,
  and \<open>fetch\<close> without a response.
\<close>

datatype native_error =
    BodyUsed
  | JsonSyntax jsstring
  | NullProperty jsstring
  | FetchFailed

datatype js_error =
    Error jsstring
  | Native native_error

record 'n platform =
  num_of_nat :: "nat \<Rightarrow> 'n"
  num_truthy :: "'n \<Rightarrow> bool"
  num_string :: "'n \<Rightarrow> jsstring"
  to_fixed2 :: "'n json option \<Rightarrow> jsstring"
  native_message :: "native_error \<Rightarrow> jsstring"

text \<open>\<open>err.message\<close>\<close>

definition message :: "'n platform \<Rightarrow> js_error \<Rightarrow> jsstring" where
  "message p e = (case e of Error m \<Rightarrow> m | Native n \<Rightarrow> native_message p n)"

text \<open>Truthiness, as \<open>!v\<close>, \<open>v || w\<close>, \<open>v && w\<close> and \<open>if (v)\<close> test it.\<close>

definition truthy :: "'n platform \<Rightarrow> 'n json option \<Rightarrow> bool" where
  "truthy p v =
     (case v of
        None \<Rightarrow> False
      | Some JNull \<Rightarrow> False
      | Some (JBool b) \<Rightarrow> b
      | Some (JNum n) \<Rightarrow> num_truthy p n
      | Some (JStr s) \<Rightarrow> s \<noteq> []
      | Some (JArr xs) \<Rightarrow> True
      | Some (JObj kvs) \<Rightarrow> True)"

text \<open>
  \<open>v.k\<close> for a value that is neither \<open>null\<close> nor \<open>undefined\<close>; none of the
  property names the program reads is inherited from a prototype, so only an object
  has them. \<open>get\<close> is the read with the exception on \<open>null\<close> and \<open>undefined\<close>,
  \<open>get_opt\<close> is \<open>v?.k\<close>.
\<close>

definition own_prop :: "'n json \<Rightarrow> jsstring \<Rightarrow> 'n json option" where
  "own_prop v k = (case v of JObj kvs \<Rightarrow> map_of kvs k | _ \<Rightarrow> None)"

definition get :: "'n json option \<Rightarrow> jsstring \<Rightarrow> js_error + 'n json option" where
  "get v k =
     (case v of
        None \<Rightarrow> Inl (Native (NullProperty k))
      | Some JNull \<Rightarrow> Inl (Native (NullProperty k))
      | Some w \<Rightarrow> Inr (own_prop w k))"

definition get_opt :: "'n json option \<Rightarrow> jsstring \<Rightarrow> 'n json option" where
  "get_opt v k =
     (case v of
        None \<Rightarrow> None
      | Some JNull \<Rightarrow> None
      | Some w \<Rightarrow> own_prop w k)"

text \<open>\<open>a || b\<close>\<close>

definition or_else :: "'n platform \<Rightarrow> 'n json option \<Rightarrow> 'n json option \<Rightarrow> 'n json option" where
  "or_else p a b = (if truthy p a then a else b)"

text \<open>
  \<open>String(v)\<close>, which a template literal, \<open>new Error(v)\<close> and an assignment to
  \<open>textContent\<close> or \<open>value\<close> apply. An array joins its elements with commas,
  \<open>null\<close> elements as the empty string.
\<close>

fun to_string :: "'n platform \<Rightarrow> 'n json \<Rightarrow> jsstring"
  and join_elems :: "'n platform \<Rightarrow> 'n json list \<Rightarrow> jsstring"
  and elem_string :: "'n platform \<Rightarrow> 'n json \<Rightarrow> jsstring" where
  "to_string p JNull = js ''null''"
| "to_string p (JBool b) = (if b then js ''true'' else js ''false'')"
| "to_string p (JNum n) = num_string p n"
| "to_string p (JStr s) = s"
| "to_string p (JArr xs) = join_elems p xs"
| "to_string p (JObj kvs) = js ''[object Object]''"
| "join_elems p [] = []"
| "join_elems p [x] = elem_string p x"
| "join_elems p (x # y # ys) = elem_string p x @ js '','' @ join_elems p (y # ys)"
| "elem_string p JNull = []"
| "elem_string p (JBool b) = to_string p (JBool b)"
| "elem_string p (JNum n) = to_string p (JNum n)"
| "elem_string p (JStr s) = to_string p (JStr s)"
| "elem_string p (JArr xs) = to_string p (JArr xs)"
| "elem_string p (JObj kvs) = to_string p (JObj kvs)"

definition string_of :: "'n platform \<Rightarrow> 'n json option \<Rightarrow> jsstring" where
  "string_of p v = (case v of None \<Rightarrow> js ''undefined'' | Some w \<Rightarrow> to_string p w)"

text \<open>Decimal digits of a status code, as a template literal prints a small integer.\<close>

fun decimal :: "nat \<Rightarrow> jsstring" where
  "decimal n = (if n < 10 then [48 + n] else decimal (n div 10) @ [48 + n mod 10])"

declare decimal.simps [simp del]

section \<open>Fetch\<close>

datatype upload = Upload (file_name: jsstring) (file_size: nat)

datatype fd_value = FdFile upload | FdString jsstring

type_synonym formdata = "(jsstring \<times> fd_value) list"

datatype body = TextBody jsstring | FormBody formdata

record request =
  req_url :: jsstring
  req_method :: jsstring
  req_credentials :: jsstring
  req_headers :: "(jsstring \<times> jsstring) list"
  req_body :: "body option"

text \<open>
  A response: the status, the \<open>Content-Type\<close> header (\<open>headers.get\<close> gives \<open>null\<close>
  when there is none), the body as text, and what \<open>JSON.parse\<close> makes of the body
  (\<open>None\<close> when it is not JSON).
\<close>

record 'n response =
  status :: nat
  content_type :: "jsstring option"
  body_text :: jsstring
  body_json :: "'n json option"

datatype 'n fetched = Rejected | Responded "'n response"

type_synonym 'n network = "request \<Rightarrow> 'n fetched"

text \<open>\<open>res.ok\<close>\<close>

text \<open>\<open>s.includes(t)\<close>\<close>

fun str_includes :: "jsstring \<Rightarrow> jsstring \<Rightarrow> bool" where
  "str_includes [] t = (t = [])"
| "str_includes (c # s) t = (take (length t) (c # s) = t \<or> str_includes s t)"

definition ok :: "'n response \<Rightarrow> bool" where
  "ok r \<longleftrightarrow> 200 \<le> status r \<and> status r \<le> 299"

text \<open>
  \<open>res.json()\<close> and \<open>res.text()\<close> consume the body: the flag is \<open>bodyUsed\<close>, and
  a second read is rejected with a \<open>TypeError\<close>. Every response is taken to have a
  body (it may be empty), as the answers to these requests do.
\<close>

definition res_json :: "'n response \<Rightarrow> bool \<Rightarrow> (js_error + 'n json) \<times> bool" where
  "res_json r used =
     (if used then (Inl (Native BodyUsed), True)
      else (case body_json r of
              None \<Rightarrow> (Inl (Native (JsonSyntax (body_text r))), True)
            | Some v \<Rightarrow> (Inr v, True)))"

definition res_text :: "'n response \<Rightarrow> bool \<Rightarrow> (js_error + jsstring) \<times> bool" where
  "res_text r used =
     (if used then (Inl (Native BodyUsed), True)
      else (Inr (body_text r), True))"

section \<open>The session gate (auth.js)\<close>

definition REQUIRE_LOGIN :: bool where
  "REQUIRE_LOGIN = True"

text \<open>
  \<^verbatim>\<open>async function fetchJSON(url, opts = {}) {
    const res = await fetch(url, { credentials: 'same-origin',
      headers: { 'Content-Type': 'application/json', ...(opts.headers||{}) }, ...opts });
    let data=null; try { data = await res.json(); } catch {}
    if (!res.ok) throw new Error((data && (data.error||data.message)) || `HTTP ${res.status}`);
    return data;
  }\<close>
  The callers pass \<open>method\<close> and \<open>body\<close> only.
\<close>

record fetch_opts =
  opt_method :: "jsstring option"
  opt_body :: "jsstring option"

definition fetchJSON_request :: "jsstring \<Rightarrow> fetch_opts \<Rightarrow> request" where
  "fetchJSON_request url opts =
     \<lparr>req_url = url,
      req_method = (case opt_method opts of None \<Rightarrow> js ''GET'' | Some m \<Rightarrow> m),
      req_credentials = js ''same-origin'',
      req_headers = [(js ''Content-Type'', js ''application/json'')],
      req_body = map_option TextBody (opt_body opts)\<rparr>"

definition fetchJSON ::
  "'n platform \<Rightarrow> 'n network \<Rightarrow> jsstring \<Rightarrow> fetch_opts \<Rightarrow> js_error + 'n json" where
  "fetchJSON p net url opts =
     (case net (fetchJSON_request url opts) of
        Rejected \<Rightarrow> Inl (Native FetchFailed)
      | Responded res \<Rightarrow>
          (let data = (case fst (res_json res False) of Inl e \<Rightarrow> JNull | Inr v \<Rightarrow> v)
           in if \<not> ok res then
                Inl (Error (string_of p
                  (or_else p
                    (if truthy p (Some data)
                     then or_else p (own_prop data (js ''error'')) (own_prop data (js ''message''))
                     else Some data)
                    (Some (JStr (js ''HTTP '' @ decimal (status res)))))))
              else Inr data))"

text \<open>
  \<^verbatim>\<open>async function authMe() {
    const r = await fetch('/auth/me', { credentials: 'same-origin' });
    let data=null; try { data = await r.json(); } catch {}
    return data && data.ok ? data.user : null;
  }\<close>
\<close>

definition authMe_request :: request where
  "authMe_request =
     \<lparr>req_url = js ''/auth/me'', req_method = js ''GET'',
      req_credentials = js ''same-origin'', req_headers = [], req_body = None\<rparr>"

definition authMe :: "'n platform \<Rightarrow> 'n network \<Rightarrow> js_error + 'n json option" where
  "authMe p net =
     (case net authMe_request of
        Rejected \<Rightarrow> Inl (Native FetchFailed)
      | Responded r \<Rightarrow>
          (let data = (case fst (res_json r False) of Inl e \<Rightarrow> JNull | Inr v \<Rightarrow> v)
           in Inr (if truthy p (Some data) \<and> truthy p (own_prop data (js ''ok''))
                   then own_prop data (js ''user'')
                   else Some JNull)))"

text \<open>
  The state of the gate: the \<open>loggedIn\<close> flag and the parts of the document that the
  gate writes. \<open>control\<close> is the disabled flag of the submission control that
  \<open>findProcessBtn\<close> finds, \<open>None\<close> when it finds none. \<open>focus_timers\<close> counts the
  \<open>setTimeout(() => focusFirstField(), 0)\<close> callbacks that \<open>showOverlay\<close> queues.
\<close>

record gate =
  loggedIn :: bool
  chip_text :: jsstring
  chip_show :: bool
  logoutBtn_display :: jsstring
  overlay_display :: jsstring
  body_locked :: bool
  authError_text :: jsstring
  authError_class :: jsstring
  authSuccess_text :: jsstring
  authSuccess_class :: jsstring
  control :: "bool option"
  focus_timers :: nat

definition clearAlerts :: "gate \<Rightarrow> gate" where
  "clearAlerts g =
     g\<lparr>authError_text := [], authError_class := js ''alert'',
       authSuccess_text := [], authSuccess_class := js ''alert''\<rparr>"

definition showOverlay :: "gate \<Rightarrow> gate" where
  "showOverlay g =
     (let g = clearAlerts g
      in g\<lparr>overlay_display := js ''flex'', body_locked := True,
           focus_timers := focus_timers g + 1\<rparr>)"

definition hideOverlay :: "gate \<Rightarrow> gate" where
  "hideOverlay g = g\<lparr>overlay_display := js ''none'', body_locked := False\<rparr>"

definition enableControlsIfPresent :: "gate \<Rightarrow> gate" where
  "enableControlsIfPresent g =
     (case control g of
        None \<Rightarrow> g
      | Some b \<Rightarrow> g\<lparr>control := Some (\<not> loggedIn g)\<rparr>)"

text \<open>
  \<^verbatim>\<open>function setLoggedIn(user) {
    loggedIn = !!user;
    const chip = document.getElementById('userChipName');
    if (user) {
      chip.textContent = `Signed in: ${user.username}`;
      chip.classList.add('show');
      logoutBtn.style.display = 'inline-flex';
      enableControlsIfPresent();
      hideOverlay();
    } else {
      chip.textContent = '';
      chip.classList.remove('show');
      logoutBtn.style.display = 'none';
      enableControlsIfPresent();
    }
  }\<close>
\<close>

definition setLoggedIn :: "'n platform \<Rightarrow> 'n json option \<Rightarrow> gate \<Rightarrow> gate" where
  "setLoggedIn p user g =
     (let g = g\<lparr>loggedIn := truthy p user\<rparr>
      in if truthy p user then
           (let g = g\<lparr>chip_text := js ''Signed in: '' @ string_of p (get_opt user (js ''username'')),
                       chip_show := True,
                       logoutBtn_display := js ''inline-flex''\<rparr>;
                g = enableControlsIfPresent g
            in hideOverlay g)
         else
           (let g = g\<lparr>chip_text := [], chip_show := False, logoutBtn_display := js ''none''\<rparr>
            in enableControlsIfPresent g))"

text \<open>
  \<^verbatim>\<open>logoutBtn.addEventListener('click', async () => {
    try { await fetchJSON('/auth/logout', { method: 'POST' }); } catch {}
    setLoggedIn(null);
    if (REQUIRE_LOGIN) showOverlay();
  });\<close>
  The result is the exception that leaves the handler, or the state it ends in.
\<close>

definition logout_click :: "'n platform \<Rightarrow> 'n network \<Rightarrow> gate \<Rightarrow> js_error + gate" where
  "logout_click p net g =
     (let g = (case fetchJSON p net (js ''/auth/logout'')
                      \<lparr>opt_method = Some (js ''POST''), opt_body = None\<rparr> of
                 Inl e \<Rightarrow> g
               | Inr data \<Rightarrow> g);
          g = setLoggedIn p (Some JNull) g;
          g = (if REQUIRE_LOGIN then showOverlay g else g)
      in Inr g)"

section \<open>The visualization collaborator\<close>

text \<open>
  \<open>vis.Network\<close> is outside the program. It is modelled by what the program can do
  with it: \<open>new vis.Network(container, data, options)\<close> makes a new live instance
  bound to the container and returns its handle, \<open>destroy\<close> ends the life of an
  instance. The world keeps the live instances, the calls made so far in their order,
  and the next fresh handle. The constructors of the collaborator are taken to return:
  an exception from within \<open>vis\<close> is outside this model.
\<close>

datatype container = MindmapEl | FlowchartEl

record physics_opts =
  physics_enabled :: bool
  physics_solver :: jsstring
  stabilization_iterations :: nat
  stabilization_fit :: bool

record node_opts =
  node_shape :: jsstring
  node_size :: nat
  node_font_face :: jsstring
  node_font_size :: nat
  node_font_color :: jsstring
  node_background :: jsstring
  node_border :: jsstring
  node_highlight_background :: jsstring
  node_highlight_border :: jsstring

record edge_opts =
  edge_color :: jsstring
  edge_highlight :: jsstring
  edge_arrow_to_enabled :: bool
  edge_arrow_to_scaleFactor :: rat
  edge_smooth_enabled :: bool
  edge_font_color :: jsstring
  edge_font_size :: nat
  edge_font_align :: jsstring

record interaction_opts =
  interaction_hover :: bool
  interaction_tooltipDelay :: nat

record hierarchical_opts =
  hier_direction :: jsstring
  hier_levelSeparation :: nat
  hier_nodeSpacing :: nat

record vis_options =
  physics :: physics_opts
  nodes :: node_opts
  edges :: edge_opts
  interaction :: interaction_opts
  layout_hierarchical :: "hierarchical_opts option"

record 'n network_instance =
  inst_id :: nat
  inst_container :: container
  inst_nodes :: "'n json"
  inst_edges :: "'n json"
  inst_options :: vis_options

datatype 'n vis_call = Created "'n network_instance" | Destroyed nat

record 'n vis_world =
  live :: "'n network_instance list"
  calls :: "'n vis_call list"
  next_id :: nat

definition destroy :: "nat \<Rightarrow> 'n vis_world \<Rightarrow> 'n vis_world" where
  "destroy h w =
     w\<lparr>live := filter (\<lambda>i. inst_id i \<noteq> h) (live w), calls := calls w @ [Destroyed h]\<rparr>"

definition new_Network ::
  "container \<Rightarrow> 'n json \<Rightarrow> 'n json \<Rightarrow> vis_options \<Rightarrow> 'n vis_world \<Rightarrow> nat \<times> 'n vis_world" where
  "new_Network c ns es opts w =
     (let i = \<lparr>inst_id = next_id w, inst_container = c, inst_nodes = ns, inst_edges = es,
                inst_options = opts\<rparr>
      in (next_id w,
          w\<lparr>live := live w @ [i], calls := calls w @ [Created i], next_id := next_id w + 1\<rparr>))"

text \<open>
  The instances on a container among some instances, and the instances that are alive
  after a sequence of calls. \<open>never_two\<close> says that at no moment of a sequence of calls
  two instances were alive on one container.
\<close>

definition on :: "container \<Rightarrow> 'n network_instance list \<Rightarrow> 'n network_instance list" where
  "on c l = filter (\<lambda>i. inst_container i = c) l"

fun apply_call :: "'n network_instance list \<Rightarrow> 'n vis_call \<Rightarrow> 'n network_instance list" where
  "apply_call l (Created i) = l @ [i]"
| "apply_call l (Destroyed h) = filter (\<lambda>i. inst_id i \<noteq> h) l"

definition live_after :: "'n vis_call list \<Rightarrow> 'n network_instance list" where
  "live_after cs = foldl apply_call [] cs"

definition at_most_one :: "'n network_instance list \<Rightarrow> bool" where
  "at_most_one l \<longleftrightarrow> length (on MindmapEl l) \<le> 1 \<and> length (on FlowchartEl l) \<le> 1"

definition never_two :: "'n vis_call list \<Rightarrow> bool" where
  "never_two cs \<longleftrightarrow> list_all (\<lambda>n. at_most_one (live_after (take n cs))) [0..<Suc (length cs)]"

text \<open>The handle stored for a container is the one live instance on it, if any.\<close>

definition handle_of :: "container \<Rightarrow> 'n network_instance list \<Rightarrow> nat option \<Rightarrow> bool" where
  "handle_of c l h \<longleftrightarrow> map inst_id (on c l) = (case h of None \<Rightarrow> [] | Some x \<Rightarrow> [x])"

section \<open>The submission controller (frontend/app.js)\<close>

definition visOptions :: vis_options where
  "visOptions =
     \<lparr>physics =
        \<lparr>physics_enabled = True, physics_solver = js ''forceAtlas2Based'',
         stabilization_iterations = 200, stabilization_fit = True\<rparr>,
      nodes =
        \<lparr>node_shape = js ''dot'', node_size = 14,
         node_font_face = js ''Inter, system-ui, sans-serif'', node_font_size = 14,
         node_font_color = js ''#0f172a'',
         node_background = js ''#93c5fd'', node_border = js ''#2563eb'',
         node_highlight_background = js ''#60a5fa'', node_highlight_border = js ''#1d4ed8''\<rparr>,
      edges =
        \<lparr>edge_color = js ''#64748b'', edge_highlight = js ''#334155'',
         edge_arrow_to_enabled = True, edge_arrow_to_scaleFactor = 7 / 10,
         edge_smooth_enabled = False,
         edge_font_color = js ''#475569'', edge_font_size = 12,
         edge_font_align = js ''horizontal''\<rparr>,
      interaction = \<lparr>interaction_hover = True, interaction_tooltipDelay = 120\<rparr>,
      layout_hierarchical = None\<rparr>"

text \<open>The \<open>graph\<close> argument of \<open>renderNetwork\<close>: \<open>{ nodes: \<dots>, edges: \<dots> }\<close>.\<close>

record 'n graph =
  graph_nodes :: "'n json option"
  graph_edges :: "'n json option"

text \<open>\<open>v || []\<close>, the argument of \<open>new vis.DataSet\<close>\<close>

definition items_or_empty :: "'n platform \<Rightarrow> 'n json option \<Rightarrow> 'n json" where
  "items_or_empty p v =
     (case v of None \<Rightarrow> JArr [] | Some x \<Rightarrow> if truthy p (Some x) then x else JArr [])"

text \<open>
  \<^verbatim>\<open>function renderNetwork(container, previous, graph, hierarchical=false) {
    if (!container) return null;
    const data = {
        nodes: new vis.DataSet(graph.nodes || []),
        edges: new vis.DataSet(graph.edges || [])
    };
    const opts = visOptions();
    if (hierarchical) {
        opts.layout = { hierarchical: { direction: 'LR', levelSeparation: 160, nodeSpacing: 80 } };
        opts.physics.enabled = false;
    }
    if (previous) previous.destroy();
    return new vis.Network(container, data, opts);
  }\<close>
  An absent container is \<open>None\<close>, and so is the handle \<open>null\<close>.
\<close>

definition render_options :: "bool \<Rightarrow> vis_options" where
  "render_options hierarchical =
     (let opts = visOptions
      in if hierarchical then
           opts\<lparr>layout_hierarchical :=
                  Some \<lparr>hier_direction = js ''LR'', hier_levelSeparation = 160,
                        hier_nodeSpacing = 80\<rparr>,
                physics := (physics opts)\<lparr>physics_enabled := False\<rparr>\<rparr>
         else opts)"

definition renderNetwork ::
  "'n platform \<Rightarrow> container option \<Rightarrow> nat option \<Rightarrow> 'n graph \<Rightarrow> bool \<Rightarrow> 'n vis_world
     \<Rightarrow> nat option \<times> 'n vis_world" where
  "renderNetwork p container previous graph hierarchical w =
     (case container of
        None \<Rightarrow> (None, w)
      | Some c \<Rightarrow>
          (let ns = items_or_empty p (graph_nodes graph);
               es = items_or_empty p (graph_edges graph);
               opts = render_options hierarchical;
               w = (case previous of None \<Rightarrow> w | Some h \<Rightarrow> destroy h w);
               (h, w) = new_Network c ns es opts w
           in (Some h, w)))"

text \<open>
  The older copy of the file (\<open>src/unnamed/part_000\<close>) has the same function without
  the first line; it is only called with a container that was found.
\<close>

definition renderNetwork_old ::
  "'n platform \<Rightarrow> container \<Rightarrow> nat option \<Rightarrow> 'n graph \<Rightarrow> bool \<Rightarrow> 'n vis_world
     \<Rightarrow> nat option \<times> 'n vis_world" where
  "renderNetwork_old p c previous graph hierarchical w =
     (let ns = items_or_empty p (graph_nodes graph);
          es = items_or_empty p (graph_edges graph);
          opts = render_options hierarchical;
          w = (case previous of None \<Rightarrow> w | Some h \<Rightarrow> destroy h w);
          (h, w) = new_Network c ns es opts w
      in (Some h, w))"

text \<open>
  The page: the elements that the script looks up once when it loads (\<open>None\<close> or
  \<open>False\<close> when \<open>getElementById\<close> finds nothing), the two handles, the world of
  the collaborator, the requests sent so far and what was written to the console.
  The button is its \<open>disabled\<close> flag and its \<open>textContent\<close>; the concept list is the
  text of its \<open>li\<close> children.
\<close>

record 'n page =
  processBtn :: "(bool \<times> jsstring) option"
  statusEl :: "jsstring option"
  textEl :: "jsstring option"
  conceptsEl :: "jsstring list option"
  mindmapEl :: bool
  flowchartEl :: bool
  mindmapNetwork :: "nat option"
  flowchartNetwork :: "nat option"
  vis :: "'n vis_world"
  sent :: "request list"
  console :: "js_error list"

text \<open>
  The form controls that \<open>submitForm\<close> looks up when it runs. A file input is
  \<open>None\<close> when the element is absent, \<open>Some None\<close> when it has no \<open>files\<close>,
  \<open>Some (Some fs)\<close> with its file list otherwise; a text control is its \<open>value\<close>,
  a checkbox its \<open>checked\<close> flag.
\<close>

record form_state =
  el_files :: "upload list option option"
  el_fileInput :: "upload list option option"
  el_lang :: "jsstring option"
  el_ocrLang :: "jsstring option"
  el_top_k :: "jsstring option"
  el_topConcepts :: "jsstring option"
  el_ocrEngine :: "jsstring option"
  el_messy :: "bool option"
  el_messyMode :: "bool option"

text \<open>\<open>FormData.getAll\<close>: the values appended under a name, in order.\<close>

definition getAll :: "formdata \<Rightarrow> jsstring \<Rightarrow> fd_value list" where
  "getAll fd name = map snd (filter (\<lambda>kv. fst kv = name) fd)"

text \<open>\<open>document.getElementById(a) || document.getElementById(b)\<close>\<close>

definition first_found :: "'a option \<Rightarrow> 'a option \<Rightarrow> 'a option" where
  "first_found a b = (case a of Some x \<Rightarrow> Some x | None \<Rightarrow> b)"

text \<open>\<open>input?.value || dflt\<close>\<close>

definition value_or :: "jsstring option \<Rightarrow> jsstring \<Rightarrow> jsstring" where
  "value_or input dflt = (case input of None \<Rightarrow> dflt | Some v \<Rightarrow> if v = [] then dflt else v)"

definition setStatus :: "jsstring \<Rightarrow> 'n page \<Rightarrow> 'n page" where
  "setStatus msg s = (case statusEl s of None \<Rightarrow> s | Some t \<Rightarrow> s\<lparr>statusEl := Some msg\<rparr>)"

definition setBusy :: "bool \<Rightarrow> 'n page \<Rightarrow> 'n page" where
  "setBusy busy s =
     (case processBtn s of
        None \<Rightarrow> s
      | Some b \<Rightarrow>
          s\<lparr>processBtn := Some (busy, if busy then js ''Processing'' @ [8230] else js ''Process'')\<rparr>)"

text \<open>
  \<^verbatim>\<open>li.textContent = `${item.phrase || ''}${item.score != null
      ? ` (${Number(item.score).toFixed(2)})` : ''}`;\<close>
\<close>

definition concept_text :: "'n platform \<Rightarrow> 'n json \<Rightarrow> js_error + jsstring" where
  "concept_text p item =
     (case item of
        JStr s \<Rightarrow> Inr s
      | JNull \<Rightarrow> Inl (Native (NullProperty (js ''phrase'')))
      | _ \<Rightarrow>
          (let phrase = own_prop item (js ''phrase'');
               score = own_prop item (js ''score'')
           in Inr (string_of p (or_else p phrase (Some (JStr [])))
                   @ (if score \<noteq> None \<and> score \<noteq> Some JNull
                      then js '' ('' @ to_fixed2 p score @ js '')''
                      else []))))"

text \<open>
  The loop of \<open>renderConcepts\<close>: one \<open>li\<close> per item; an exception leaves the
  items appended so far.
\<close>

fun append_concepts ::
  "'n platform \<Rightarrow> 'n json list \<Rightarrow> jsstring list \<Rightarrow> js_error option \<times> jsstring list" where
  "append_concepts p [] lis = (None, lis)"
| "append_concepts p (item # items) lis =
     (case concept_text p item of
        Inl e \<Rightarrow> (Some e, lis)
      | Inr t \<Rightarrow> append_concepts p items (lis @ [t]))"

definition renderConcepts :: "'n platform \<Rightarrow> 'n json list \<Rightarrow> 'n page \<Rightarrow> js_error option \<times> 'n page" where
  "renderConcepts p list s =
     (case conceptsEl s of
        None \<Rightarrow> (None, s)
      | Some old \<Rightarrow>
          (let (e, lis) = append_concepts p list []
           in (e, s\<lparr>conceptsEl := Some lis\<rparr>)))"

text \<open>\<open>contentType && contentType.includes('application/json')\<close>\<close>

definition is_json_type :: "jsstring option \<Rightarrow> bool" where
  "is_json_type ct =
     (case ct of None \<Rightarrow> False | Some t \<Rightarrow> t \<noteq> [] \<and> str_includes t (js ''application/json''))"

text \<open>
  \<^verbatim>\<open>const filesInput = document.getElementById('files') || document.getElementById('fileInput');
  if (!filesInput || !filesInput.files || filesInput.files.length === 0) { \<dots> return; }
  const files = filesInput.files;\<close>
  \<open>None\<close> when the check fails.
\<close>

definition selected_files :: "form_state \<Rightarrow> upload list option" where
  "selected_files f =
     (case first_found (el_files f) (el_fileInput f) of
        None \<Rightarrow> None
      | Some None \<Rightarrow> None
      | Some (Some fs) \<Rightarrow> if length fs = 0 then None else Some fs)"

text \<open>
  \<^verbatim>\<open>for (const f of files) { fd.append('files', f); }
  fd.append('lang', langInput?.value || 'en');
  fd.append('top_k', topKInput?.value || '15');
  fd.append('ocr_engine', ocrEngineInput?.value || 'gcv');
  if (messyInput?.checked) { fd.append('messy', 'true'); }\<close>
\<close>

definition form_data :: "form_state \<Rightarrow> upload list \<Rightarrow> formdata" where
  "form_data f files =
     (let fd = map (\<lambda>u. (js ''files'', FdFile u)) files;
          langInput = first_found (el_lang f) (el_ocrLang f);
          topKInput = first_found (el_top_k f) (el_topConcepts f);
          ocrEngineInput = el_ocrEngine f;
          messyInput = first_found (el_messy f) (el_messyMode f);
          fd = fd @ [(js ''lang'', FdString (value_or langInput (js ''en'')))];
          fd = fd @ [(js ''top_k'', FdString (value_or topKInput (js ''15'')))];
          fd = fd @ [(js ''ocr_engine'', FdString (value_or ocrEngineInput (js ''gcv'')))]
      in if messyInput = Some True then fd @ [(js ''messy'', FdString (js ''true''))] else fd)"

definition process_request :: "formdata \<Rightarrow> request" where
  "process_request fd =
     \<lparr>req_url = js ''/api/process'', req_method = js ''POST'',
      req_credentials = js ''same-origin'', req_headers = [], req_body = Some (FormBody fd)\<rparr>"

text \<open>
  The block for a response that is not \<open>ok\<close>; every path through it throws, and the
  result is the exception that leaves it.
  \<^verbatim>\<open>const contentType = res.headers.get('content-type');
  if (contentType && contentType.includes('application/json')) {
      try {
          const errorData = await res.json();
          throw new Error(errorData.error || `HTTP ${res.status}`);
      } catch (jsonErr) {
          const errorText = await res.text();
          throw new Error(`HTTP ${res.status}: ${errorText.substring(0, 200)}`);
      }
  } else {
      const errorText = await res.text();
      throw new Error(`HTTP ${res.status}: ${errorText.substring(0, 200)}`);
  }\<close>
  The \<open>catch\<close> clause receives whatever the \<open>try\<close> block throws, also the
  \<open>Error\<close> made from \<open>errorData.error\<close>; it does not use it, and reads the body
  again.
\<close>

definition status_and_text :: "'n response \<Rightarrow> jsstring \<Rightarrow> js_error" where
  "status_and_text res errorText =
     Error (js ''HTTP '' @ decimal (status res) @ js '': '' @ take 200 errorText)"

definition http_error :: "'n platform \<Rightarrow> 'n response \<Rightarrow> js_error" where
  "http_error p res =
     (if is_json_type (content_type res) then
        (let (parsed, used) = res_json res False;
             jsonErr =
               (case parsed of
                  Inl e \<Rightarrow> e
                | Inr errorData \<Rightarrow>
                    (case get (Some errorData) (js ''error'') of
                       Inl e \<Rightarrow> e
                     | Inr v \<Rightarrow>
                         Error (string_of p
                           (or_else p v (Some (JStr (js ''HTTP '' @ decimal (status res))))))));
             (read, used) = res_text res used
         in case read of
              Inl e \<Rightarrow> e
            | Inr errorText \<Rightarrow> status_and_text res errorText)
      else
        (let (read, used) = res_text res False
         in case read of
              Inl e \<Rightarrow> e
            | Inr errorText \<Rightarrow> status_and_text res errorText))"

text \<open>
  \<^verbatim>\<open>const contentType = res.headers.get('content-type');
  if (!contentType || !contentType.includes('application/json')) {
      const text = await res.text();
      throw new Error(`Expected JSON response, got: ${text.substring(0, 100)}`);
  }
  const data = await res.json();
  if (data.error) { throw new Error(data.error); }\<close>
\<close>

definition read_data :: "'n platform \<Rightarrow> 'n response \<Rightarrow> js_error + 'n json" where
  "read_data p res =
     (if \<not> is_json_type (content_type res) then
        (case fst (res_text res False) of
           Inl e \<Rightarrow> Inl e
         | Inr text \<Rightarrow> Inl (Error (js ''Expected JSON response, got: '' @ take 100 text)))
      else
        (case fst (res_json res False) of
           Inl e \<Rightarrow> Inl e
         | Inr data \<Rightarrow>
             (case get (Some data) (js ''error'') of
                Inl e \<Rightarrow> Inl e
              | Inr err \<Rightarrow>
                  if truthy p err then Inl (Error (string_of p err)) else Inr data)))"

text \<open>
  \<^verbatim>\<open>if (data.mindmap && mindmapEl) {
      mindmapNetwork = renderNetwork(mindmapEl, mindmapNetwork,
          { nodes: data.mindmap.nodes, edges: data.mindmap.edges }, false);
  }
  if (data.flowchart && flowchartEl) {
      flowchartNetwork = renderNetwork(flowchartEl, flowchartNetwork,
          { nodes: data.flowchart.nodes, edges: data.flowchart.edges }, true);
  }\<close>
\<close>

definition graph_of :: "'n json option \<Rightarrow> 'n graph" where
  "graph_of d = \<lparr>graph_nodes = get_opt d (js ''nodes''), graph_edges = get_opt d (js ''edges'')\<rparr>"

definition render_mindmap :: "'n platform \<Rightarrow> 'n json \<Rightarrow> 'n page \<Rightarrow> 'n page" where
  "render_mindmap p data s =
     (let mindmap = own_prop data (js ''mindmap'')
      in if truthy p mindmap \<and> mindmapEl s then
           (let (h, w) = renderNetwork p (Some MindmapEl) (mindmapNetwork s)
                           (graph_of mindmap) False (vis s)
            in s\<lparr>mindmapNetwork := h, vis := w\<rparr>)
         else s)"

definition render_flowchart :: "'n platform \<Rightarrow> 'n json \<Rightarrow> 'n page \<Rightarrow> 'n page" where
  "render_flowchart p data s =
     (let flowchart = own_prop data (js ''flowchart'')
      in if truthy p flowchart \<and> flowchartEl s then
           (let (h, w) = renderNetwork p (Some FlowchartEl) (flowchartNetwork s)
                           (graph_of flowchart) True (vis s)
            in s\<lparr>flowchartNetwork := h, vis := w\<rparr>)
         else s)"

text \<open>
  \<^verbatim>\<open>if (textEl) { textEl.value = data.text || data.llm?.clean_text || ''; }\<close>
\<close>

definition show_text :: "'n platform \<Rightarrow> 'n json \<Rightarrow> 'n page \<Rightarrow> 'n page" where
  "show_text p data s =
     (case textEl s of
        None \<Rightarrow> s
      | Some old \<Rightarrow>
          s\<lparr>textEl := Some (string_of p
                (or_else p
                   (or_else p (own_prop data (js ''text''))
                      (get_opt (own_prop data (js ''llm'')) (js ''clean_text'')))
                   (Some (JStr []))))\<rparr>)"

text \<open>
  \<^verbatim>\<open>if (Array.isArray(data.keyphrases)) {
      renderConcepts(data.keyphrases);
  } else if (Array.isArray(data.llm?.concepts)) {
      renderConcepts(data.llm.concepts.map(c => ({ phrase: c, score: 1 })));
  }\<close>
\<close>

definition show_concepts :: "'n platform \<Rightarrow> 'n json \<Rightarrow> 'n page \<Rightarrow> js_error option \<times> 'n page" where
  "show_concepts p data s =
     (case own_prop data (js ''keyphrases'') of
        Some (JArr list) \<Rightarrow> renderConcepts p list s
      | _ \<Rightarrow>
         (case get_opt (own_prop data (js ''llm'')) (js ''concepts'') of
            Some (JArr cs) \<Rightarrow>
              renderConcepts p
                (map (\<lambda>c. JObj [(js ''phrase'', c), (js ''score'', JNum (num_of_nat p 1))]) cs) s
          | _ \<Rightarrow> (None, s)))"

text \<open>
  \<^verbatim>\<open>const meta = data.meta || {};
  setStatus(`Done (${meta.images_processed || 0} page(s), engine: ${meta.ocr_engine || 'n/a'})`);\<close>
\<close>

definition done_message :: "'n platform \<Rightarrow> 'n json \<Rightarrow> jsstring" where
  "done_message p data =
     (let meta = or_else p (own_prop data (js ''meta'')) (Some (JObj []))
      in js ''Done (''
         @ string_of p (or_else p (get_opt meta (js ''images_processed''))
                          (Some (JNum (num_of_nat p 0))))
         @ js '' page(s), engine: ''
         @ string_of p (or_else p (get_opt meta (js ''ocr_engine'')) (Some (JStr (js ''n/a''))))
         @ js '')'')"

text \<open>The part of the \<open>try\<close> block after \<open>data\<close> has been read.\<close>

definition show_result :: "'n platform \<Rightarrow> 'n json \<Rightarrow> 'n page \<Rightarrow> js_error option \<times> 'n page" where
  "show_result p data s =
     (let s = show_text p data s;
          (e, s) = show_concepts p data s
      in case e of
           Some err \<Rightarrow> (Some err, s)
         | None \<Rightarrow>
             (let s = render_mindmap p data s;
                  s = render_flowchart p data s;
                  s = setStatus (done_message p data) s
              in (None, s)))"

text \<open>
  The \<open>try\<close> block of \<open>submitForm\<close>: the exception that leaves it, if any, and the
  page at that moment. The early \<open>return\<close> of the file check leaves it without one.
\<close>

definition submit_try ::
  "'n platform \<Rightarrow> 'n network \<Rightarrow> form_state \<Rightarrow> 'n page \<Rightarrow> js_error option \<times> 'n page" where
  "submit_try p net f s =
     (case selected_files f of
        None \<Rightarrow>
          (let s = setStatus (js ''Please select at least one file.'') s;
               s = setBusy False s
           in (None, s))
      | Some files \<Rightarrow>
          (let req = process_request (form_data f files);
               s = s\<lparr>sent := sent s @ [req]\<rparr>
           in case net req of
                Rejected \<Rightarrow> (Some (Native FetchFailed), s)
              | Responded res \<Rightarrow>
                  if \<not> ok res then (Some (http_error p res), s)
                  else (case read_data p res of
                          Inl e \<Rightarrow> (Some e, s)
                        | Inr data \<Rightarrow> show_result p data s)))"

text \<open>
  The event and its \<open>preventDefault\<close> are not part of the page.
  \<^verbatim>\<open>async function submitForm(e) {
    e.preventDefault();
    setStatus('');
    setBusy(true);
    try { \<dots> }
    catch (err) {
        console.error('Processing error:', err);
        setStatus(err.message || 'Failed to process');
    } finally {
        setBusy(false);
    }
  }\<close>
\<close>

definition submitForm :: "'n platform \<Rightarrow> 'n network \<Rightarrow> form_state \<Rightarrow> 'n page \<Rightarrow> 'n page" where
  "submitForm p net f s =
     (let s = setStatus [] s;
          s = setBusy True s;
          (thrown, s) = submit_try p net f s;
          s = (case thrown of
                 None \<Rightarrow> s
               | Some err \<Rightarrow>
                   (let s = s\<lparr>console := console s @ [err]\<rparr>
                    in setStatus (if message p err = [] then js ''Failed to process''
                                  else message p err) s))
      in setBusy False s)"

text \<open>
  One submission after the other, each with its form state and the network's answer.
  \<open>submitForm\<close> touches the handles and the collaborator only after its last
  \<open>await\<close>, so that part of one submission runs without another in between.
\<close>

fun submissions ::
  "'n platform \<Rightarrow> ('n network \<times> form_state) list \<Rightarrow> 'n page \<Rightarrow> 'n page" where
  "submissions p [] s = s"
| "submissions p ((net, f) # rest) s = submissions p rest (submitForm p net f s)"

text \<open>The page when the script has loaded: no handle, no instance.\<close>

definition loaded :: "'n page \<Rightarrow> bool" where
  "loaded s \<longleftrightarrow>
     mindmapNetwork s = None \<and> flowchartNetwork s = None \<and> live (vis s) = []
     \<and> calls (vis s) = [] \<and> sent s = [] \<and> console s = []"


section \<open>The older copy of app.js (src/unnamed/part_000)\<close>

text \<open>
  The older copy reads its controls without testing that they exist, and reads the body
  as JSON before it looks at the status:
  \<^verbatim>\<open>const files = document.getElementById('files').files;
  if (!files || files.length === 0) { \<dots> return; }
  for (const f of files) fd.append('files', f);
  fd.append('lang', document.getElementById('lang').value || 'en');
  fd.append('top_k', document.getElementById('top_k').value || '15');
  fd.append('ocr_engine', document.getElementById('ocrEngine').value || 'gcv');
  if (document.getElementById('messy').checked) fd.append('messy', 'true');
  \<dots>
  const data = await res.json();
  if (!res.ok || data.error) throw new Error(data.error || `HTTP ${res.status}`);\<close>
\<close>

definition selected_files_old :: "form_state \<Rightarrow> js_error + upload list option" where
  "selected_files_old f =
     (case el_files f of
        None \<Rightarrow> Inl (Native (NullProperty (js ''files'')))
      | Some None \<Rightarrow> Inr None
      | Some (Some fs) \<Rightarrow> Inr (if length fs = 0 then None else Some fs))"

definition form_data_old :: "form_state \<Rightarrow> upload list \<Rightarrow> js_error + formdata" where
  "form_data_old f files =
     (let fd = map (\<lambda>u. (js ''files'', FdFile u)) files
      in case el_lang f of
           None \<Rightarrow> Inl (Native (NullProperty (js ''value'')))
         | Some language \<Rightarrow>
        (let fd = fd @ [(js ''lang'', FdString (if language = [] then js ''en'' else language))]
         in case el_top_k f of
              None \<Rightarrow> Inl (Native (NullProperty (js ''value'')))
            | Some top_k \<Rightarrow>
           (let fd = fd @ [(js ''top_k'', FdString (if top_k = [] then js ''15'' else top_k))]
            in case el_ocrEngine f of
                 None \<Rightarrow> Inl (Native (NullProperty (js ''value'')))
               | Some engine \<Rightarrow>
              (let fd = fd @ [(js ''ocr_engine'',
                               FdString (if engine = [] then js ''gcv'' else engine))]
               in case el_messy f of
                    None \<Rightarrow> Inl (Native (NullProperty (js ''checked'')))
                  | Some messy \<Rightarrow>
                      Inr (if messy then fd @ [(js ''messy'', FdString (js ''true''))]
                           else fd)))))"

definition read_data_old :: "'n platform \<Rightarrow> 'n response \<Rightarrow> js_error + 'n json" where
  "read_data_old p res =
     (case fst (res_json res False) of
        Inl e \<Rightarrow> Inl e
      | Inr data \<Rightarrow>
          (case get (Some data) (js ''error'') of
             Inl e \<Rightarrow> Inl e
           | Inr err \<Rightarrow>
               if \<not> ok res \<or> truthy p err
               then Inl (Error (string_of p
                      (or_else p err (Some (JStr (js ''HTTP '' @ decimal (status res)))))))
               else Inr data))"

text \<open>
  The older copy of the file renders the flowchart with the last argument \<open>false\<close>:
  \<^verbatim>\<open>if (data.flowchart && flowchartEl) {
    flowchartNetwork = renderNetwork(flowchartEl, flowchartNetwork, {
      nodes: data.flowchart.nodes,
      edges: data.flowchart.edges
    }, false);
  }\<close>
\<close>

definition render_flowchart_old :: "'n platform \<Rightarrow> 'n json \<Rightarrow> 'n page \<Rightarrow> 'n page" where
  "render_flowchart_old p data s =
     (let flowchart = own_prop data (js ''flowchart'')
      in if truthy p flowchart \<and> flowchartEl s then
           (let (h, w) = renderNetwork_old p FlowchartEl (flowchartNetwork s)
                           (graph_of flowchart) False (vis s)
            in s\<lparr>flowchartNetwork := h, vis := w\<rparr>)
         else s)"

text \<open>
  What ties the handles to the world: the live instances are those that the calls so far
  leave alive, no two were ever alive on one container, handles are not reused, and the
  handle stored for a container is the one live instance on it.
\<close>

definition coherent :: "'n vis_world \<Rightarrow> (container \<Rightarrow> nat option) \<Rightarrow> bool" where
  "coherent w H \<longleftrightarrow>
     live_after (calls w) = live w
     \<and> never_two (calls w)
     \<and> distinct (map inst_id (live w))
     \<and> list_all (\<lambda>i. inst_id i < next_id w) (live w)
     \<and> list_all (\<lambda>c. handle_of c (live w) (H c)) [MindmapEl, FlowchartEl]"

definition handles :: "'n page \<Rightarrow> container \<Rightarrow> nat option" where
  "handles s c = (case c of MindmapEl \<Rightarrow> mindmapNetwork s | FlowchartEl \<Rightarrow> flowchartNetwork s)"

text \<open>The two layouts in the words of the specification, and the instances ever created.\<close>

definition force_directed :: "vis_options \<Rightarrow> bool" where
  "force_directed opts \<longleftrightarrow> physics_enabled (physics opts) \<and> layout_hierarchical opts = None"

definition hierarchical_left_to_right :: "vis_options \<Rightarrow> bool" where
  "hierarchical_left_to_right opts \<longleftrightarrow>
     \<not> physics_enabled (physics opts)
     \<and> layout_hierarchical opts =
         Some \<lparr>hier_direction = js ''LR'', hier_levelSeparation = 160, hier_nodeSpacing = 80\<rparr>"

definition layout_as_specified :: "'n network_instance \<Rightarrow> bool" where
  "layout_as_specified i =
     (case inst_container i of
        MindmapEl \<Rightarrow> force_directed (inst_options i)
      | FlowchartEl \<Rightarrow> hierarchical_left_to_right (inst_options i))"

fun created :: "'n vis_call list \<Rightarrow> 'n network_instance list" where
  "created [] = []"
| "created (Created i # cs) = i # created cs"
| "created (Destroyed h # cs) = created cs"

section \<open>Inputs for the examples\<close>

text \<open>
  A platform with integers for numbers; the messages are those of a browser, shortened.
\<close>

definition sample_platform :: "int platform" where
  "sample_platform =
     \<lparr>num_of_nat = int,
      num_truthy = (\<lambda>n. n \<noteq> 0),
      num_string = (\<lambda>n. if n < 0 then js ''-'' @ decimal (nat (- n)) else decimal (nat n)),
      to_fixed2 = (\<lambda>v. case v of
                     Some (JNum n) \<Rightarrow>
                       (if n < 0 then js ''-'' @ decimal (nat (- n)) else decimal (nat n)) @ js ''.00''
                   | _ \<Rightarrow> js ''NaN''),
      native_message = (\<lambda>e. case e of
                     BodyUsed \<Rightarrow> js ''body stream already read''
                   | JsonSyntax b \<Rightarrow> js ''Unexpected token in JSON''
                   | NullProperty k \<Rightarrow> js ''Cannot read properties of null''
                   | FetchFailed \<Rightarrow> js ''Failed to fetch'')\<rparr>"

definition signup_example :: "string \<Rightarrow> string \<Rightarrow> string \<Rightarrow> signup_dom" where
  "signup_example e u pw =
     \<lparr>signupEmail = js e, signupUsername = js u, signupPassword = js pw,
      pwBar = Some 0, signupBtn_disabled = True\<rparr>"

text \<open>Answers of the auth endpoints.\<close>

definition unauthorized :: "int response" where
  "unauthorized =
     \<lparr>status = 401, content_type = Some (js ''application/json''), body_text = js ''{}'',
      body_json = Some (JObj [(js ''message'', JStr (js ''bad login''))])\<rparr>"

definition not_json_200 :: "int response" where
  "not_json_200 =
     \<lparr>status = 200, content_type = Some (js ''text/html''), body_text = js ''<html>'',
      body_json = None\<rparr>"

definition bad_gateway :: "int response" where
  "bad_gateway =
     \<lparr>status = 502, content_type = Some (js ''text/html''), body_text = js ''<html>'',
      body_json = None\<rparr>"

definition error_with_session :: "int response" where
  "error_with_session =
     \<lparr>status = 500, content_type = Some (js ''application/json''), body_text = js ''{}'',
      body_json = Some (JObj [(js ''ok'', JBool True),
                              (js ''user'', JObj [(js ''username'', JStr (js ''ann''))])])\<rparr>"

definition no_session :: "int response" where
  "no_session =
     \<lparr>status = 401, content_type = Some (js ''text/html''), body_text = js ''Unauthorized'',
      body_json = None\<rparr>"

definition signed_in :: gate where
  "signed_in =
     \<lparr>loggedIn = True, chip_text = js ''Signed in: ann'', chip_show = True,
      logoutBtn_display = js ''inline-flex'', overlay_display = js ''none'', body_locked = False,
      authError_text = [], authError_class = js ''alert'',
      authSuccess_text = js ''Welcome back!'', authSuccess_class = js ''alert ok'',
      control = Some False, focus_timers = 0\<rparr>"

text \<open>A page, a form with one file, and answers of the processing endpoint.\<close>

definition blank_page :: "int page" where
  "blank_page =
     \<lparr>processBtn = Some (False, js ''Process''), statusEl = Some [], textEl = Some [],
      conceptsEl = Some [], mindmapEl = True, flowchartEl = True,
      mindmapNetwork = None, flowchartNetwork = None,
      vis = \<lparr>live = [], calls = [], next_id = 0\<rparr>, sent = [], console = []\<rparr>"

definition one_file_form :: form_state where
  "one_file_form =
     \<lparr>el_files = Some (Some [Upload (js ''notes.png'') 1024]), el_fileInput = None,
      el_lang = Some [], el_ocrLang = None, el_top_k = None, el_topConcepts = Some (js ''7''),
      el_ocrEngine = None, el_messy = Some True, el_messyMode = None\<rparr>"

definition no_file_form :: form_state where
  "no_file_form = one_file_form\<lparr>el_files := Some (Some [])\<rparr>"

definition boom_response :: "int response" where
  \<open>boom_response =
     \<lparr>status = 500, content_type = Some (js ''application/json''),
      body_text = js ''{"error":"boom"}'',
      body_json = Some (JObj [(js ''error'', JStr (js ''boom''))])\<rparr>\<close>

definition broken_json_response :: "int response" where
  \<open>broken_json_response =
     \<lparr>status = 500, content_type = Some (js ''application/json''),
      body_text = js ''{"error":'', body_json = None\<rparr>\<close>

definition graph_json :: "int json" where
  "graph_json =
     JObj [(js ''nodes'', JArr [JObj [(js ''id'', JNum 1), (js ''label'', JStr (js ''a''))]]),
           (js ''edges'', JArr [])]"

definition result_data :: "int json" where
  "result_data =
     JObj [(js ''text'', JStr (js ''a'')), (js ''mindmap'', graph_json),
           (js ''flowchart'', graph_json)]"

definition result_response :: "int response" where
  "result_response =
     \<lparr>status = 200, content_type = Some (js ''application/json''), body_text = js ''{}'',
      body_json = Some result_data\<rparr>"

definition one_live :: "int vis_world" where
  "one_live =
     \<lparr>live = [\<lparr>inst_id = 0, inst_container = MindmapEl, inst_nodes = JArr [],
               inst_edges = JArr [], inst_options = render_options False\<rparr>],
      calls = [Created \<lparr>inst_id = 0, inst_container = MindmapEl, inst_nodes = JArr [],
                        inst_edges = JArr [], inst_options = render_options False\<rparr>],
      next_id = 1\<rparr>"

definition upload :: "int network \<times> form_state" where
  "upload = (\<lambda>req. Responded result_response, one_file_form)"

text \<open>A call without its payload: the handle created or destroyed.\<close>

definition call_handle :: "'n vis_call \<Rightarrow> nat + nat" where
  "call_handle c = (case c of Created i \<Rightarrow> Inl (inst_id i) | Destroyed h \<Rightarrow> Inr h)"

section \<open>Properties of the signup validation\<close>

lemma strength_refines: "strength pw = strength_spec pw"
  unfolding strength_def strength_spec_def criteria_def search_def Let_def
  by (cases "6 \<le> length pw"; cases "list_ex is_upper pw"; cases "list_ex is_lower pw";
      cases "list_ex is_digit pw";
      cases "list_ex (\<lambda>c. \<not> (is_upper c \<or> is_lower c \<or> is_digit c)) pw"; simp)

lemma strength_le_5: "strength pw \<le> 5"
  by (simp add: strength_def Let_def)

subsection \<open>The derivative matcher decides the language of the pattern\<close>

lemma nullable_lang: "nullable r \<longleftrightarrow> [] \<in> lang r"
  by (induction r) (auto intro: star.nil)

lemma star_cons:
  "c # w \<in> star L \<longleftrightarrow> (\<exists>u v. w = u @ v \<and> c # u \<in> L \<and> v \<in> star L)"
proof
  assume "c # w \<in> star L"
  then show "\<exists>u v. w = u @ v \<and> c # u \<in> L \<and> v \<in> star L"
  proof (induction "c # w" rule: star.induct)
    case (app u v)
    show ?case
    proof (cases u)
      case Nil
      with app show ?thesis by simp
    next
      case (Cons a u')
      with app show ?thesis by auto
    qed
  qed
next
  assume "\<exists>u v. w = u @ v \<and> c # u \<in> L \<and> v \<in> star L"
  then obtain u v where "w = u @ v" "c # u \<in> L" "v \<in> star L" by blast
  then show "c # w \<in> star L" using star.app [of "c # u" L v] by simp
qed

lemma deriv_lang: "w \<in> lang (deriv c r) \<longleftrightarrow> c # w \<in> lang r"
proof (induction r arbitrary: w)
  case (Seq r s)
  show ?case
    by (auto simp: Seq nullable_lang Cons_eq_append_conv)
next
  case (Rep r)
  show ?case by (auto simp: Rep star_cons)
qed auto

lemma test_lang: "anchored_test r s \<longleftrightarrow> s \<in> lang r"
  unfolding anchored_test_def
  by (induction s arbitrary: r) (simp_all add: nullable_lang deriv_lang)

lemma star_cls: "w \<in> star (lang (Cls P)) \<longleftrightarrow> list_all P w"
proof
  assume "w \<in> star (lang (Cls P))"
  then show "list_all P w" by (induction rule: star.induct) auto
next
  assume "list_all P w"
  then show "w \<in> star (lang (Cls P))"
  proof (induction w)
    case Nil
    show ?case by (rule star.nil)
  next
    case (Cons c w)
    then have "[c] \<in> lang (Cls P)" "w \<in> star (lang (Cls P))" by auto
    then show ?case using star.app [of "[c]" "lang (Cls P)" w] by simp
  qed
qed

lemma lang_Rep1_Cls: "w \<in> lang (Rep1 (Cls P)) \<longleftrightarrow> w \<noteq> [] \<and> list_all P w"
proof
  assume "w \<in> lang (Rep1 (Cls P))"
  then obtain c v where "w = [c] @ v" "P c" "v \<in> star (lang (Cls P))"
    by (auto simp: Rep1_def)
  then show "w \<noteq> [] \<and> list_all P w" by (simp add: star_cls del: lang.simps)
next
  assume a: "w \<noteq> [] \<and> list_all P w"
  then obtain c v where w: "w = c # v" by (cases w) auto
  from a w have "[c] \<in> lang (Cls P)" by simp
  moreover from a w have "v \<in> star (lang (Cls P))" by (simp add: star_cls del: lang.simps)
  ultimately have "[c] @ v \<in> lang (Seq (Cls P) (Rep (Cls P)))"
    unfolding lang.simps by blast
  with w show "w \<in> lang (Rep1 (Cls P))" by (simp add: Rep1_def)
qed

lemma lang_Seq_iff: "w \<in> lang (Seq r s) \<longleftrightarrow> (\<exists>u v. w = u @ v \<and> u \<in> lang r \<and> v \<in> lang s)"
  by auto

lemma lang_Cls_iff: "w \<in> lang (Cls P) \<longleftrightarrow> (\<exists>c. w = [c] \<and> P c)"
  by auto

lemma email_rx_lang: "s \<in> lang email_rx \<longleftrightarrow> address_pattern s"
proof
  assume "s \<in> lang email_rx"
  then obtain a r1 where 1: "s = a @ r1" "a \<in> lang (Rep1 (Cls addr_char))"
      "r1 \<in> lang (Seq (Cls (\<lambda>c. c = 64)) (Seq (Rep1 (Cls addr_char))
                (Seq (Cls (\<lambda>c. c = 46)) (Rep1 (Cls addr_char)))))"
    unfolding email_rx_def lang_Seq_iff [of s] by blast
  from 1(3) obtain r2 where 2: "r1 = [64] @ r2"
      "r2 \<in> lang (Seq (Rep1 (Cls addr_char)) (Seq (Cls (\<lambda>c. c = 46)) (Rep1 (Cls addr_char))))"
    unfolding lang_Seq_iff [of r1] lang_Cls_iff by blast
  from 2(2) obtain b r3 where 3: "r2 = b @ r3" "b \<in> lang (Rep1 (Cls addr_char))"
      "r3 \<in> lang (Seq (Cls (\<lambda>c. c = 46)) (Rep1 (Cls addr_char)))"
    unfolding lang_Seq_iff [of r2] by blast
  from 3(3) obtain c where 4: "r3 = [46] @ c" "c \<in> lang (Rep1 (Cls addr_char))"
    unfolding lang_Seq_iff [of r3] lang_Cls_iff by blast
  from 1 2 3 4 show "address_pattern s"
    unfolding address_pattern_def address_part_def lang_Rep1_Cls by blast
next
  assume "address_pattern s"
  then obtain a b c where s: "s = a @ [64] @ b @ [46] @ c"
    and p: "a \<in> lang (Rep1 (Cls addr_char))" "b \<in> lang (Rep1 (Cls addr_char))"
      "c \<in> lang (Rep1 (Cls addr_char))"
    unfolding address_pattern_def address_part_def lang_Rep1_Cls by blast
  have "[46] @ c \<in> lang (Seq (Cls (\<lambda>c. c = 46)) (Rep1 (Cls addr_char)))"
    unfolding lang_Seq_iff lang_Cls_iff using p(3) by blast
  then have "b @ [46] @ c \<in> lang (Seq (Rep1 (Cls addr_char))
                (Seq (Cls (\<lambda>c. c = 46)) (Rep1 (Cls addr_char))))"
    unfolding lang_Seq_iff [of "b @ [46] @ c"] using p(2) by blast
  then have "[64] @ b @ [46] @ c \<in> lang (Seq (Cls (\<lambda>c. c = 64)) (Seq (Rep1 (Cls addr_char))
                (Seq (Cls (\<lambda>c. c = 46)) (Rep1 (Cls addr_char)))))"
    unfolding lang_Seq_iff [of "[64] @ b @ [46] @ c"] lang_Cls_iff by blast
  then show "s \<in> lang email_rx"
    unfolding email_rx_def s lang_Seq_iff [of "a @ [64] @ b @ [46] @ c"] using p(1) by blast
qed

lemma email_test_iff: "anchored_test email_rx s \<longleftrightarrow> address_pattern s"
  by (simp add: test_lang email_rx_lang)

lemma example_address: "address_pattern (trim (js '' a@b.c ''))"
  unfolding email_test_iff [symmetric]
  by (simp add: js_def trim_def is_space_def anchored_test_def email_rx_def Rep1_def addr_char_def)

lemma example_usernames: "length (trim (js '' abc '')) = 3" "length (trim (js ''ab '')) = 2"
  by (simp_all add: js_def trim_def is_space_def)

lemma example_strengths: "strength_spec (js ''abcde1'') = 3" "strength_spec (js ''abcdef'') = 2"
  unfolding strength_refines [symmetric]
  by (simp_all add: js_def strength_def search_def is_upper_def is_lower_def is_digit_def)

text \<open>
  C7. After \<open>validateSignup\<close> the signup button is enabled exactly when the trimmed
  email has the form of an address (local part, \<open>@\<close>, domain, dot, rest, each
  non-empty and free of white space and \<open>@\<close>), the trimmed username has at least 3
  code units, and the password scores at least 3, one point for each of: length at
  least 6, an uppercase letter, a lowercase letter, a digit, a symbol, capped at 5.
\<close>

theorem C7_signup_enabled_iff:
  "\<not> signupBtn_disabled (validateSignup d) \<longleftrightarrow>
     address_pattern (trim (signupEmail d))
     \<and> 3 \<le> length (trim (signupUsername d))
     \<and> 3 \<le> strength_spec (signupPassword d)"
  by (auto simp: validateSignup_def Let_def email_test_iff strength_refines split: option.splits)

text \<open>
  The boundaries: a username of exactly 3 with a password of strength exactly 3 enables
  the button; a username of 2, or a password of strength 2, disables it.
\<close>

theorem C7_signup_boundaries:
  "\<not> signupBtn_disabled (validateSignup (signup_example '' a@b.c '' '' abc '' ''abcde1''))
   \<and> signupBtn_disabled (validateSignup (signup_example '' a@b.c '' ''ab '' ''abcde1''))
   \<and> signupBtn_disabled (validateSignup (signup_example '' a@b.c '' '' abc '' ''abcdef''))"
  using C7_signup_enabled_iff [of "signup_example '' a@b.c '' '' abc '' ''abcde1''"]
    C7_signup_enabled_iff [of "signup_example '' a@b.c '' ''ab '' ''abcde1''"]
    C7_signup_enabled_iff [of "signup_example '' a@b.c '' '' abc '' ''abcdef''"]
  by (simp add: signup_example_def example_address example_usernames example_strengths)

section \<open>Properties of the session gate\<close>

lemma own_prop_falsy: "\<not> truthy p (Some data) \<Longrightarrow> own_prop data k = None"
  by (cases data) (auto simp: truthy_def own_prop_def)

lemma decimal_examples:
  "decimal 401 = js ''401''" "decimal 502 = js ''502''" "decimal 500 = js ''500''"
  by (simp_all add: decimal.simps js_def)

lemma fetchJSON_Rejected:
  "net (fetchJSON_request url opts) = Rejected \<Longrightarrow>
   fetchJSON p net url opts = Inl (Native FetchFailed)"
  by (simp add: fetchJSON_def)

text \<open>
  C10. For a response that arrives, \<open>fetchJSON\<close> throws exactly when the status is
  not ok. With an ok status it returns the parsed body, \<open>null\<close> when the body is not
  JSON. Otherwise the \<open>Error\<close> carries the body's \<open>error\<close> field if it is truthy,
  else its \<open>message\<close> field if that is truthy, else \<open>HTTP\<close> and the status.
\<close>

theorem C10_fetchJSON_result:
  assumes "net (fetchJSON_request url opts) = Responded res"
  shows "fetchJSON p net url opts =
     (if ok res then Inr (case body_json res of None \<Rightarrow> JNull | Some data \<Rightarrow> data)
      else Inl (Error
        (case body_json res of
           None \<Rightarrow> js ''HTTP '' @ decimal (status res)
         | Some data \<Rightarrow>
             if truthy p (own_prop data (js ''error''))
             then string_of p (own_prop data (js ''error''))
             else if truthy p (own_prop data (js ''message''))
             then string_of p (own_prop data (js ''message''))
             else js ''HTTP '' @ decimal (status res))))"
proof (cases "body_json res")
  case None
  with assms show ?thesis
    by (simp add: fetchJSON_def res_json_def Let_def truthy_def or_else_def string_of_def)
next
  case (Some data)
  show ?thesis
  proof (cases "truthy p (Some data)")
    case True
    with assms Some show ?thesis
      by (simp add: fetchJSON_def res_json_def Let_def or_else_def string_of_def)
  next
    case False
    with assms Some own_prop_falsy [OF False] show ?thesis
      by (simp add: fetchJSON_def res_json_def Let_def or_else_def string_of_def truthy_def)
  qed
qed

text \<open>
  A 401 with a \<open>message\<close>, a 200 whose body is not JSON, and a 502 whose body is not
  JSON.
\<close>

theorem C10_fetchJSON_examples:
  "fetchJSON sample_platform (\<lambda>req. Responded unauthorized) (js ''/auth/login'')
      \<lparr>opt_method = Some (js ''POST''), opt_body = None\<rparr> = Inl (Error (js ''bad login''))
   \<and> fetchJSON sample_platform (\<lambda>req. Responded not_json_200) (js ''/auth/login'')
      \<lparr>opt_method = Some (js ''POST''), opt_body = None\<rparr> = Inr JNull
   \<and> fetchJSON sample_platform (\<lambda>req. Responded bad_gateway) (js ''/auth/login'')
      \<lparr>opt_method = Some (js ''POST''), opt_body = None\<rparr> = Inl (Error (js ''HTTP 502''))"
  using C10_fetchJSON_result [of "\<lambda>req. Responded unauthorized" "js ''/auth/login''"
        "\<lparr>opt_method = Some (js ''POST''), opt_body = None\<rparr>" unauthorized sample_platform]
    C10_fetchJSON_result [of "\<lambda>req. Responded not_json_200" "js ''/auth/login''"
        "\<lparr>opt_method = Some (js ''POST''), opt_body = None\<rparr>" not_json_200 sample_platform]
    C10_fetchJSON_result [of "\<lambda>req. Responded bad_gateway" "js ''/auth/login''"
        "\<lparr>opt_method = Some (js ''POST''), opt_body = None\<rparr>" bad_gateway sample_platform]
  by (simp add: unauthorized_def not_json_200_def bad_gateway_def ok_def own_prop_def truthy_def
      string_of_def decimal_examples js_def)

text \<open>
  C4, as stated, fails. When \<open>fetch\<close> gets no response, \<open>authMe\<close> throws: the
  \<open>await fetch\<close> is outside the \<open>try\<close>. And the status is never read: a 500
  whose body says \<open>ok\<close> gives the user, not \<open>null\<close>.
\<close>

theorem C4_authMe_throws_and_ignores_status:
  "authMe sample_platform (\<lambda>req. Rejected) = Inl (Native FetchFailed)
   \<and> authMe sample_platform (\<lambda>req. Responded error_with_session)
       = Inr (Some (JObj [(js ''username'', JStr (js ''ann''))]))"
  by (simp add: authMe_def res_json_def error_with_session_def truthy_def own_prop_def js_def)

text \<open>
  C4, amended. Whenever the probe gets a response, whatever its status, \<open>authMe\<close>
  does not throw: it returns \<open>null\<close> when the body is not JSON or has no truthy
  \<open>ok\<close>, and the body's \<open>user\<close> otherwise.
\<close>

theorem C4_authMe_on_response:
  assumes "net authMe_request = Responded r"
  shows "authMe p net =
     Inr (case body_json r of
            None \<Rightarrow> Some JNull
          | Some data \<Rightarrow>
              if truthy p (own_prop data (js ''ok'')) then own_prop data (js ''user'')
              else Some JNull)"
proof (cases "body_json r")
  case None
  with assms show ?thesis by (simp add: authMe_def res_json_def truthy_def)
next
  case (Some data)
  show ?thesis
  proof (cases "truthy p (Some data)")
    case True
    with assms Some show ?thesis by (simp add: authMe_def res_json_def)
  next
    case False
    with assms Some own_prop_falsy [OF False] show ?thesis
      by (simp add: authMe_def res_json_def truthy_def)
  qed
qed

theorem C4_authMe_example:
  "authMe sample_platform (\<lambda>req. Responded no_session) = Inr (Some JNull)"
  using C4_authMe_on_response [of "\<lambda>req. Responded no_session" no_session sample_platform]
  by (simp add: no_session_def)

text \<open>
  C6. Whatever the network answers to the logout request, the click handler ends
  without an exception, and then the gate is unauthenticated: the flag is off, the chip
  is empty, the submission control (if there is one) is disabled and the overlay is
  shown.
\<close>

theorem C6_logout:
  "\<exists>g'. logout_click p net g = Inr g'
        \<and> \<not> loggedIn g'
        \<and> chip_text g' = []
        \<and> control g' = map_option (\<lambda>b. True) (control g)
        \<and> overlay_display g' = js ''flex''"
  by (simp add: logout_click_def setLoggedIn_def truthy_def enableControlsIfPresent_def
      showOverlay_def clearAlerts_def REQUIRE_LOGIN_def Let_def split: option.splits sum.splits)

text \<open>The logout request fails in transport, from a signed-in gate.\<close>

theorem C6_logout_example:
  "\<exists>g'. logout_click sample_platform (\<lambda>req. Rejected) signed_in = Inr g'
        \<and> \<not> loggedIn g' \<and> chip_text g' = [] \<and> control g' = Some True
        \<and> overlay_display g' = js ''flex''"
  using C6_logout [of sample_platform "\<lambda>req. Rejected" signed_in]
  by (simp add: signed_in_def)

section \<open>Properties of the submission controller\<close>

subsection \<open>What each step leaves alone\<close>

lemma setStatus_frame [simp]:
  "processBtn (setStatus m s) = processBtn s" "textEl (setStatus m s) = textEl s"
  "conceptsEl (setStatus m s) = conceptsEl s" "mindmapEl (setStatus m s) = mindmapEl s"
  "flowchartEl (setStatus m s) = flowchartEl s" "mindmapNetwork (setStatus m s) = mindmapNetwork s"
  "flowchartNetwork (setStatus m s) = flowchartNetwork s" "vis (setStatus m s) = vis s"
  "sent (setStatus m s) = sent s" "console (setStatus m s) = console s"
  "statusEl (setStatus m s) = map_option (\<lambda>t. m) (statusEl s)"
  by (simp_all add: setStatus_def split: option.splits)

lemma setBusy_frame [simp]:
  "statusEl (setBusy b s) = statusEl s" "textEl (setBusy b s) = textEl s"
  "conceptsEl (setBusy b s) = conceptsEl s" "mindmapEl (setBusy b s) = mindmapEl s"
  "flowchartEl (setBusy b s) = flowchartEl s" "mindmapNetwork (setBusy b s) = mindmapNetwork s"
  "flowchartNetwork (setBusy b s) = flowchartNetwork s" "vis (setBusy b s) = vis s"
  "sent (setBusy b s) = sent s" "console (setBusy b s) = console s"
  "processBtn (setBusy b s) =
     map_option (\<lambda>x. (b, if b then js ''Processing'' @ [8230] else js ''Process'')) (processBtn s)"
  by (simp_all add: setBusy_def split: option.splits)

lemma show_text_frame [simp]:
  "statusEl (show_text p d s) = statusEl s" "processBtn (show_text p d s) = processBtn s"
  "conceptsEl (show_text p d s) = conceptsEl s" "mindmapEl (show_text p d s) = mindmapEl s"
  "flowchartEl (show_text p d s) = flowchartEl s" "mindmapNetwork (show_text p d s) = mindmapNetwork s"
  "flowchartNetwork (show_text p d s) = flowchartNetwork s" "vis (show_text p d s) = vis s"
  "sent (show_text p d s) = sent s" "console (show_text p d s) = console s"
  by (simp_all add: show_text_def split: option.splits)

lemma renderConcepts_frame [simp]:
  "statusEl (snd (renderConcepts p l s)) = statusEl s" "processBtn (snd (renderConcepts p l s)) = processBtn s"
  "textEl (snd (renderConcepts p l s)) = textEl s" "mindmapEl (snd (renderConcepts p l s)) = mindmapEl s"
  "flowchartEl (snd (renderConcepts p l s)) = flowchartEl s"
  "mindmapNetwork (snd (renderConcepts p l s)) = mindmapNetwork s"
  "flowchartNetwork (snd (renderConcepts p l s)) = flowchartNetwork s" "vis (snd (renderConcepts p l s)) = vis s"
  "sent (snd (renderConcepts p l s)) = sent s" "console (snd (renderConcepts p l s)) = console s"
  by (simp_all add: renderConcepts_def split: option.splits prod.splits)

lemma show_concepts_frame [simp]:
  "statusEl (snd (show_concepts p d s)) = statusEl s" "processBtn (snd (show_concepts p d s)) = processBtn s"
  "textEl (snd (show_concepts p d s)) = textEl s" "mindmapEl (snd (show_concepts p d s)) = mindmapEl s"
  "flowchartEl (snd (show_concepts p d s)) = flowchartEl s"
  "mindmapNetwork (snd (show_concepts p d s)) = mindmapNetwork s"
  "flowchartNetwork (snd (show_concepts p d s)) = flowchartNetwork s" "vis (snd (show_concepts p d s)) = vis s"
  "sent (snd (show_concepts p d s)) = sent s" "console (snd (show_concepts p d s)) = console s"
  by (simp_all add: show_concepts_def split: option.splits json.splits)

lemma render_mindmap_frame [simp]:
  "statusEl (render_mindmap p d s) = statusEl s" "processBtn (render_mindmap p d s) = processBtn s"
  "textEl (render_mindmap p d s) = textEl s" "conceptsEl (render_mindmap p d s) = conceptsEl s"
  "mindmapEl (render_mindmap p d s) = mindmapEl s" "flowchartEl (render_mindmap p d s) = flowchartEl s"
  "flowchartNetwork (render_mindmap p d s) = flowchartNetwork s"
  "sent (render_mindmap p d s) = sent s" "console (render_mindmap p d s) = console s"
  by (simp_all add: render_mindmap_def Let_def split: prod.splits)

lemma render_flowchart_frame [simp]:
  "statusEl (render_flowchart p d s) = statusEl s" "processBtn (render_flowchart p d s) = processBtn s"
  "textEl (render_flowchart p d s) = textEl s" "conceptsEl (render_flowchart p d s) = conceptsEl s"
  "mindmapEl (render_flowchart p d s) = mindmapEl s" "flowchartEl (render_flowchart p d s) = flowchartEl s"
  "mindmapNetwork (render_flowchart p d s) = mindmapNetwork s"
  "sent (render_flowchart p d s) = sent s" "console (render_flowchart p d s) = console s"
  by (simp_all add: render_flowchart_def Let_def split: prod.splits)

lemma show_result_frame [simp]:
  "processBtn (snd (show_result p d s)) = processBtn s"
  "mindmapEl (snd (show_result p d s)) = mindmapEl s"
  "flowchartEl (snd (show_result p d s)) = flowchartEl s"
  "sent (snd (show_result p d s)) = sent s" "console (snd (show_result p d s)) = console s"
  by (simp_all add: show_result_def Let_def case_prod_beta split: option.splits)

lemma submit_try_sent:
  "sent (snd (submit_try p net f s)) =
     (case selected_files f of None \<Rightarrow> sent s
      | Some files \<Rightarrow> sent s @ [process_request (form_data f files)])"
  by (simp add: submit_try_def Let_def split: option.splits fetched.splits sum.splits)

lemma submitForm_sent:
  "sent (submitForm p net f s) =
     (case selected_files f of None \<Rightarrow> sent s
      | Some files \<Rightarrow> sent s @ [process_request (form_data f files)])"
proof -
  have "sent (submitForm p net f s) = sent (snd (submit_try p net f (setBusy True (setStatus [] s))))"
    by (simp add: submitForm_def Let_def case_prod_beta split: option.splits)
  then show ?thesis by (simp add: submit_try_sent split: option.splits)
qed


lemma js_inject [simp]: "js a = js b \<longleftrightarrow> a = b"
  by (simp add: js_def inj_map_eq_map inj_def)

lemma getAll_append [simp]: "getAll (a @ b) k = getAll a k @ getAll b k"
  by (simp add: getAll_def)

lemma getAll_files: "getAll (map (\<lambda>u. (js ''files'', FdFile u)) files) k =
   (if k = js ''files'' then map FdFile files else [])"
  by (induction files) (auto simp: getAll_def)

lemma getAll_Nil [simp]: "getAll [] k = []"
  by (simp add: getAll_def)

lemma getAll_Cons [simp]:
  "getAll ((k', v) # fd) k = (if k' = k then v # getAll fd k else getAll fd k)"
  by (simp add: getAll_def)

lemma js_Nil [simp]: "js a = [] \<longleftrightarrow> a = []"
  by (simp add: js_def)

subsection \<open>Rendering without a container\<close>

text \<open>
  C2, as stated, fails: with an absent container \<open>renderNetwork\<close> returns \<open>null\<close>,
  which is not the previous handle when there is one.
\<close>

theorem C2_previous_handle_not_returned:
  "fst (renderNetwork sample_platform None (Some 0) \<lparr>graph_nodes = None, graph_edges = None\<rparr>
          False one_live) \<noteq> Some 0"
  by (simp add: renderNetwork_def)

text \<open>
  C2, amended. With an absent container, for every previous handle, descriptor and layout
  mode, \<open>renderNetwork\<close> returns \<open>null\<close> and does nothing else: no instance is
  created and the previous instance is not destroyed.
\<close>

theorem C2_absent_container:
  "renderNetwork p None previous graph hierarchical w = (None, w)"
  by (simp add: renderNetwork_def)

theorem C2_absent_container_example:
  "renderNetwork sample_platform None (Some 0) \<lparr>graph_nodes = None, graph_edges = None\<rparr>
          False one_live = (None, one_live)"
  using C2_absent_container [of sample_platform "Some 0" "\<lparr>graph_nodes = None, graph_edges = None\<rparr>" False one_live]
  by simp

subsection \<open>The request\<close>

text \<open>
  C9. With at least one file selected, \<open>submitForm\<close> sends one request, whose body is
  the form data: the files under \<open>files\<close>; \<open>lang\<close>, \<open>top_k\<close> and
  \<open>ocr_engine\<close> with the value of their input, or \<open>en\<close>, \<open>15\<close> and
  \<open>gcv\<close> when the input is absent or empty; and \<open>messy\<close> with the value
  \<open>true\<close> when the checkbox is set, no \<open>messy\<close> field at all otherwise.
\<close>

theorem C9_request_fields:
  assumes "first_found (el_files f) (el_fileInput f) = Some (Some files)" and "files \<noteq> []"
  shows "sent (submitForm p net f s) = sent s @ [process_request (form_data f files)]
     \<and> req_body (process_request (form_data f files)) = Some (FormBody (form_data f files))
     \<and> getAll (form_data f files) (js ''files'') = map FdFile files
     \<and> getAll (form_data f files) (js ''lang'') =
         [FdString (case first_found (el_lang f) (el_ocrLang f) of
                      None \<Rightarrow> js ''en'' | Some v \<Rightarrow> if v = [] then js ''en'' else v)]
     \<and> getAll (form_data f files) (js ''top_k'') =
         [FdString (case first_found (el_top_k f) (el_topConcepts f) of
                      None \<Rightarrow> js ''15'' | Some v \<Rightarrow> if v = [] then js ''15'' else v)]
     \<and> getAll (form_data f files) (js ''ocr_engine'') =
         [FdString (case el_ocrEngine f of
                      None \<Rightarrow> js ''gcv'' | Some v \<Rightarrow> if v = [] then js ''gcv'' else v)]
     \<and> getAll (form_data f files) (js ''messy'') =
         (if first_found (el_messy f) (el_messyMode f) = Some True
          then [FdString (js ''true'')] else [])"
proof -
  from assms have sel: "selected_files f = Some files"
    by (simp add: selected_files_def)
  have 1: "sent (submitForm p net f s) = sent s @ [process_request (form_data f files)]"
    by (simp add: submitForm_sent sel)
  have 2: "req_body (process_request (form_data f files)) = Some (FormBody (form_data f files))"
    by (simp add: process_request_def)
  have 3: "getAll (form_data f files) (js ''files'') = map FdFile files"
    by (simp add: form_data_def Let_def getAll_files)
  have 4: "getAll (form_data f files) (js ''lang'') =
         [FdString (case first_found (el_lang f) (el_ocrLang f) of
                      None \<Rightarrow> js ''en'' | Some v \<Rightarrow> if v = [] then js ''en'' else v)]"
    by (simp add: form_data_def Let_def getAll_files value_or_def)
  have 5: "getAll (form_data f files) (js ''top_k'') =
         [FdString (case first_found (el_top_k f) (el_topConcepts f) of
                      None \<Rightarrow> js ''15'' | Some v \<Rightarrow> if v = [] then js ''15'' else v)]"
    by (simp add: form_data_def Let_def getAll_files value_or_def)
  have 6: "getAll (form_data f files) (js ''ocr_engine'') =
         [FdString (case el_ocrEngine f of
                      None \<Rightarrow> js ''gcv'' | Some v \<Rightarrow> if v = [] then js ''gcv'' else v)]"
    by (simp add: form_data_def Let_def getAll_files value_or_def)
  have 7: "getAll (form_data f files) (js ''messy'') =
         (if first_found (el_messy f) (el_messyMode f) = Some True
          then [FdString (js ''true'')] else [])"
    by (simp add: form_data_def Let_def getAll_files value_or_def)
  from 1 2 3 4 5 6 7 show ?thesis by blast
qed

theorem C9_request_example:
  "sent (submitForm sample_platform (\<lambda>req. Rejected) one_file_form blank_page) =
      [process_request (form_data one_file_form [Upload (js ''notes.png'') 1024])]
   \<and> getAll (form_data one_file_form [Upload (js ''notes.png'') 1024]) (js ''lang'') = [FdString (js ''en'')]
   \<and> getAll (form_data one_file_form [Upload (js ''notes.png'') 1024]) (js ''top_k'') = [FdString (js ''7'')]
   \<and> getAll (form_data one_file_form [Upload (js ''notes.png'') 1024]) (js ''ocr_engine'') = [FdString (js ''gcv'')]
   \<and> getAll (form_data one_file_form [Upload (js ''notes.png'') 1024]) (js ''messy'') = [FdString (js ''true'')]
   \<and> getAll (form_data (one_file_form\<lparr>el_messy := Some False\<rparr>) [Upload (js ''notes.png'') 1024]) (js ''messy'') = []"
  using C9_request_fields [of one_file_form "[Upload (js ''notes.png'') 1024]" sample_platform "\<lambda>req. Rejected" blank_page]
    C9_request_fields [of "one_file_form\<lparr>el_messy := Some False\<rparr>" "[Upload (js ''notes.png'') 1024]" sample_platform "\<lambda>req. Rejected" blank_page]
  by (simp add: one_file_form_def first_found_def blank_page_def)

subsection \<open>No file selected\<close>

text \<open>
  C5. When there is no file input, or it has no file list, or the list is empty,
  \<open>submitForm\<close> only writes the validation message to the status region and
  re-enables the control with its idle label: no request is sent, and the text, the
  concepts, the handles and the rendered networks are as before.
\<close>

theorem C5_no_file:
  assumes "case first_found (el_files f) (el_fileInput f) of
             None \<Rightarrow> True | Some None \<Rightarrow> True | Some (Some fs) \<Rightarrow> fs = []"
  shows "submitForm p net f s =
           s\<lparr>statusEl := map_option (\<lambda>t. js ''Please select at least one file.'') (statusEl s),
             processBtn := map_option (\<lambda>b. (False, js ''Process'')) (processBtn s)\<rparr>
         \<and> sent (submitForm p net f s) = sent s
         \<and> textEl (submitForm p net f s) = textEl s
         \<and> conceptsEl (submitForm p net f s) = conceptsEl s
         \<and> mindmapNetwork (submitForm p net f s) = mindmapNetwork s
         \<and> flowchartNetwork (submitForm p net f s) = flowchartNetwork s
         \<and> vis (submitForm p net f s) = vis s"
proof -
  from assms have sel: "selected_files f = None"
    by (simp add: selected_files_def split: option.splits)
  have "submitForm p net f s =
           s\<lparr>statusEl := map_option (\<lambda>t. js ''Please select at least one file.'') (statusEl s),
             processBtn := map_option (\<lambda>b. (False, js ''Process'')) (processBtn s)\<rparr>"
    by (cases "statusEl s"; cases "processBtn s")
       (simp_all add: submitForm_def submit_try_def sel setStatus_def setBusy_def Let_def)
  then show ?thesis by simp
qed

theorem C5_no_file_example:
  "submitForm sample_platform (\<lambda>req. Responded result_response) no_file_form blank_page =
     blank_page\<lparr>statusEl := Some (js ''Please select at least one file.'')\<rparr>
   \<and> sent (submitForm sample_platform (\<lambda>req. Responded result_response) no_file_form blank_page) = []"
  using C5_no_file [of no_file_form sample_platform "\<lambda>req. Responded result_response" blank_page]
  by (simp add: no_file_form_def one_file_form_def first_found_def blank_page_def)

subsection \<open>A response that is not ok\<close>

lemma http_error_json:
  "is_json_type (content_type res) \<Longrightarrow> http_error p res = Native BodyUsed"
  by (simp add: http_error_def res_json_def res_text_def Let_def case_prod_beta split: option.splits)

lemma http_error_other:
  "\<not> is_json_type (content_type res) \<Longrightarrow>
   http_error p res = Error (js ''HTTP '' @ decimal (status res) @ js '': '' @ take 200 (body_text res))"
  by (simp add: http_error_def res_text_def status_and_text_def)

lemma submitForm_not_ok:
  assumes "selected_files f = Some files"
    and "net (process_request (form_data f files)) = Responded res"
    and "\<not> ok res"
  shows "statusEl (submitForm p net f s) =
     map_option (\<lambda>t. if message p (http_error p res) = [] then js ''Failed to process''
                      else message p (http_error p res)) (statusEl s)"
  using assms
  by (cases "statusEl s") (simp_all add: submitForm_def submit_try_def Let_def)

lemma json_type_example: "is_json_type (Some (js ''application/json''))"
  by (simp add: is_json_type_def js_def)

lemma one_file_selected: "selected_files one_file_form = Some [Upload (js ''notes.png'') 1024]"
  by (simp add: selected_files_def one_file_form_def first_found_def)

text \<open>
  C1. The claim is what the code sets out to do, and the code misses it. A response with
  status 500, \<open>Content-Type: application/json\<close> and body \<open>{"error":"boom"}\<close>
  does not surface \<open>boom\<close>: the \<open>Error\<close> made from the field is thrown inside the
  \<open>try\<close> whose \<open>catch\<close> is meant for parse failures, the \<open>catch\<close> reads the
  consumed body again, and the message surfaced is that of the platform's
  \<open>TypeError\<close>. A body that fails to parse ends the same way, not with a message made
  from the status.
\<close>

theorem C1_error_field_not_surfaced:
  "statusEl (submitForm sample_platform (\<lambda>req. Responded boom_response) one_file_form blank_page)
     = Some (js ''body stream already read'')
   \<and> statusEl (submitForm sample_platform (\<lambda>req. Responded broken_json_response) one_file_form blank_page)
     = Some (js ''body stream already read'')"
proof -
  have b: "\<not> ok boom_response" "\<not> ok broken_json_response"
    by (simp_all add: ok_def boom_response_def broken_json_response_def)
  have e: "http_error sample_platform boom_response = Native BodyUsed"
      "http_error sample_platform broken_json_response = Native BodyUsed"
    by (simp_all add: http_error_json json_type_example boom_response_def broken_json_response_def)
  have m: "message sample_platform (Native BodyUsed) = js ''body stream already read''"
    by (simp add: message_def sample_platform_def)
  have s: "statusEl blank_page = Some []" by (simp add: blank_page_def)
  show ?thesis
    using submitForm_not_ok [OF one_file_selected _ b(1), of "\<lambda>req. Responded boom_response" sample_platform blank_page]
      submitForm_not_ok [OF one_file_selected _ b(2), of "\<lambda>req. Responded broken_json_response" sample_platform blank_page]
    by (simp add: e m s)
qed

subsection \<open>One instance per container\<close>

lemma on_Nil [simp]: "on c [] = []"
  by (simp add: on_def)

lemma on_append [simp]: "on c (l @ m) = on c l @ on c m"
  by (simp add: on_def)

lemma on_single [simp]: "on c [i] = (if inst_container i = c then [i] else [])"
  by (simp add: on_def)

lemma on_filter: "on c (filter P l) = filter P (on c l)"
  by (simp add: on_def conj_commute)

lemma on_subset: "set (on c l) \<subseteq> set l"
  by (auto simp: on_def)

lemma live_after_Nil [simp]: "live_after [] = []"
  by (simp add: live_after_def)

lemma live_after_snoc [simp]: "live_after (cs @ [c]) = apply_call (live_after cs) c"
  by (simp add: live_after_def)

lemma never_two_Nil [simp]: "never_two []"
  by (simp add: never_two_def at_most_one_def)

lemma never_two_snoc:
  "never_two (cs @ [c]) \<longleftrightarrow> never_two cs \<and> at_most_one (live_after (cs @ [c]))"
proof -
  define P where "P = (\<lambda>n. at_most_one (live_after (take n cs)))"
  define Q where "Q = (\<lambda>n. at_most_one (live_after (take n (cs @ [c]))))"
  have same: "list_all Q [0..<Suc (length cs)] = list_all P [0..<Suc (length cs)]"
    unfolding list_all_iff P_def Q_def by simp
  have last: "Q (Suc (length cs)) = at_most_one (live_after (cs @ [c]))"
    unfolding Q_def by simp
  have "never_two (cs @ [c]) = list_all Q ([0..<Suc (length cs)] @ [Suc (length cs)])"
    unfolding never_two_def Q_def by simp
  also have "\<dots> = (list_all Q [0..<Suc (length cs)] \<and> Q (Suc (length cs)))"
    by simp
  also have "\<dots> = (never_two cs \<and> at_most_one (live_after (cs @ [c])))"
    unfolding same last never_two_def P_def by (rule refl)
  finally show ?thesis .
qed

lemma handle_of_length: "handle_of c l h \<Longrightarrow> length (on c l) \<le> 1"
proof -
  assume "handle_of c l h"
  then have "length (map inst_id (on c l)) \<le> 1"
    by (simp add: handle_of_def split: option.splits)
  then show ?thesis by simp
qed

lemma handle_of_None [simp]: "handle_of c l None \<longleftrightarrow> on c l = []"
  by (simp add: handle_of_def)

lemma handle_of_Some: "handle_of c l (Some h) \<longleftrightarrow> (\<exists>i. on c l = [i] \<and> inst_id i = h)"
  by (cases "on c l") (auto simp: handle_of_def)

lemma destroy_own:
  assumes "handle_of c l (Some h)"
  shows "on c (filter (\<lambda>i. inst_id i \<noteq> h) l) = []"
  using assms by (auto simp: handle_of_Some on_filter)

lemma destroy_other:
  assumes d: "distinct (map inst_id l)" and h: "handle_of c l (Some h)" and ne: "c' \<noteq> c"
  shows "on c' (filter (\<lambda>i. inst_id i \<noteq> h) l) = on c' l"
proof -
  from h obtain i where i: "on c l = [i]" "inst_id i = h" by (auto simp: handle_of_Some)
  then have "i \<in> set (on c l)" by simp
  then have il: "i \<in> set l" "inst_container i = c" by (simp_all add: on_def)
  have "\<forall>j \<in> set (on c' l). inst_id j \<noteq> h"
  proof
    fix j assume "j \<in> set (on c' l)"
    then have jl: "j \<in> set l" "inst_container j = c'" by (auto simp: on_def)
    show "inst_id j \<noteq> h"
    proof
      assume "inst_id j = h"
      with i il jl d have "i = j" by (metis distinct_map inj_onD)
      with il jl ne show False by simp
    qed
  qed
  then show ?thesis by (simp add: on_filter)
qed

lemma handles_at_most_one:
  "list_all (\<lambda>c. handle_of c l (H c)) [MindmapEl, FlowchartEl] \<Longrightarrow> at_most_one l"
  by (auto simp: at_most_one_def dest: handle_of_length)

lemma coherent_at_most_one: "coherent w H \<Longrightarrow> at_most_one (live w)"
  using handles_at_most_one [of "live w" H] by (simp add: coherent_def)

lemma coherent_destroy:
  assumes "coherent w H" and "H c = Some h"
  shows "coherent (destroy h w) (H(c := None))"
proof -
  let ?l = "filter (\<lambda>i. inst_id i \<noteq> h) (live w)"
  from assms have hc: "handle_of c (live w) (Some h)"
    by (cases c) (simp_all add: coherent_def)
  from assms have d: "distinct (map inst_id (live w))" by (simp add: coherent_def)
  have own: "on c ?l = []" by (rule destroy_own [OF hc])
  have other: "\<And>c'. c' \<noteq> c \<Longrightarrow> on c' ?l = on c' (live w)"
    by (rule destroy_other [OF d hc])
  have hs: "list_all (\<lambda>c'. handle_of c' ?l ((H(c := None)) c')) [MindmapEl, FlowchartEl]"
    using assms(1) own other by (cases c) (simp_all add: coherent_def handle_of_def)
  then have amo: "at_most_one ?l"
    by (rule handles_at_most_one)
  from assms(1) have la: "live_after (calls w @ [Destroyed h]) = ?l"
    by (simp add: coherent_def)
  from assms(1) amo la have nt: "never_two (calls w @ [Destroyed h])"
    by (simp add: never_two_snoc coherent_def del: live_after_snoc)
  from assms(1) have fresh: "list_all (\<lambda>i. inst_id i < next_id w) ?l"
    by (simp add: coherent_def list_all_iff)
  from d have d': "distinct (map inst_id ?l)" by (rule distinct_map_filter)
  from hs nt la fresh d' show ?thesis
    by (simp add: coherent_def destroy_def)
qed

lemma coherent_new:
  assumes "coherent w H" and "H c = None"
  shows "coherent (snd (new_Network c ns es opts w)) (H(c := Some (next_id w)))"
    and "fst (new_Network c ns es opts w) = next_id w"
proof -
  let ?i = "\<lparr>inst_id = next_id w, inst_container = c, inst_nodes = ns, inst_edges = es,
              inst_options = opts\<rparr>"
  let ?l = "live w @ [?i]"
  from assms have e: "on c (live w) = []" by (cases c) (simp_all add: coherent_def)
  have hs: "list_all (\<lambda>c'. handle_of c' ?l ((H(c := Some (next_id w))) c')) [MindmapEl, FlowchartEl]"
    using assms(1) e by (cases c) (simp_all add: coherent_def handle_of_def)
  then have amo: "at_most_one ?l"
    by (rule handles_at_most_one)
  from assms(1) have la: "live_after (calls w @ [Created ?i]) = ?l"
    by (simp add: coherent_def)
  from assms(1) amo la have nt: "never_two (calls w @ [Created ?i])"
    by (simp add: never_two_snoc coherent_def del: live_after_snoc)
  from assms(1) have fresh: "list_all (\<lambda>i. inst_id i < Suc (next_id w)) ?l"
    by (auto simp: coherent_def list_all_iff)
  from assms(1) have d': "distinct (map inst_id ?l)"
    by (auto simp: coherent_def list_all_iff)
  from hs nt la fresh d' show "coherent (snd (new_Network c ns es opts w)) (H(c := Some (next_id w)))"
    by (simp add: coherent_def new_Network_def Let_def)
  show "fst (new_Network c ns es opts w) = next_id w"
    by (simp add: new_Network_def Let_def)
qed

lemma next_id_destroy [simp]: "next_id (destroy h w) = next_id w"
  by (simp add: destroy_def)

lemma coherent_renderNetwork:
  assumes "coherent w H"
  shows "coherent (snd (renderNetwork p (Some c) (H c) g hier w))
           (H(c := fst (renderNetwork p (Some c) (H c) g hier w)))"
proof (cases "H c")
  case None
  with coherent_new [OF assms None] show ?thesis
    by (simp add: renderNetwork_def Let_def case_prod_beta)
next
  case (Some h)
  let ?ns = "items_or_empty p (graph_nodes g)" and ?es = "items_or_empty p (graph_edges g)"
  have 1: "coherent (destroy h w) (H(c := None))" by (rule coherent_destroy [OF assms Some])
  have 2: "(H(c := None)) c = None" by simp
  have 3: "coherent (snd (new_Network c ?ns ?es (render_options hier) (destroy h w)))
             (H(c := Some (next_id w)))"
    using coherent_new(1) [OF 1 2, of ?ns ?es "render_options hier"]
    by (simp only: fun_upd_upd next_id_destroy)
  have 4: "fst (new_Network c ?ns ?es (render_options hier) (destroy h w)) = next_id w"
    using coherent_new(2) [OF 1 2, of ?ns ?es "render_options hier"]
    by (simp only: next_id_destroy)
  from 3 4 Some show ?thesis
    by (simp add: renderNetwork_def Let_def case_prod_beta)
qed

lemma handles_frame [simp]:
  "handles (setStatus m s) = handles s" "handles (setBusy b s) = handles s"
  "handles (show_text p d s) = handles s" "handles (snd (show_concepts p d s)) = handles s"
  "handles (s\<lparr>sent := x\<rparr>) = handles s" "handles (s\<lparr>console := y\<rparr>) = handles s"
  by (simp_all add: handles_def fun_eq_iff split: container.splits)

lemma coherent_render_mindmap:
  assumes "coherent (vis s) (handles s)"
  shows "coherent (vis (render_mindmap p d s)) (handles (render_mindmap p d s))"
proof (cases "truthy p (own_prop d (js ''mindmap'')) \<and> mindmapEl s")
  case False
  with assms show ?thesis by (auto simp: render_mindmap_def Let_def)
next
  case True
  let ?r = "renderNetwork p (Some MindmapEl) (handles s MindmapEl)
              (graph_of (own_prop d (js ''mindmap''))) False (vis s)"
  have h: "handles s MindmapEl = mindmapNetwork s" by (simp add: handles_def)
  have v: "vis (render_mindmap p d s) = snd ?r"
    using True by (simp add: render_mindmap_def Let_def case_prod_beta h)
  have "handles (render_mindmap p d s) = (handles s)(MindmapEl := fst ?r)"
    using True by (simp add: render_mindmap_def Let_def case_prod_beta h handles_def fun_eq_iff split: container.splits)
  with v coherent_renderNetwork [OF assms, of p MindmapEl] show ?thesis by simp
qed

lemma coherent_render_flowchart:
  assumes "coherent (vis s) (handles s)"
  shows "coherent (vis (render_flowchart p d s)) (handles (render_flowchart p d s))"
proof (cases "truthy p (own_prop d (js ''flowchart'')) \<and> flowchartEl s")
  case False
  with assms show ?thesis by (auto simp: render_flowchart_def Let_def)
next
  case True
  let ?r = "renderNetwork p (Some FlowchartEl) (handles s FlowchartEl)
              (graph_of (own_prop d (js ''flowchart''))) True (vis s)"
  have h: "handles s FlowchartEl = flowchartNetwork s" by (simp add: handles_def)
  have v: "vis (render_flowchart p d s) = snd ?r"
    using True by (simp add: render_flowchart_def Let_def case_prod_beta h)
  have "handles (render_flowchart p d s) = (handles s)(FlowchartEl := fst ?r)"
    using True by (simp add: render_flowchart_def Let_def case_prod_beta h handles_def fun_eq_iff split: container.splits)
  with v coherent_renderNetwork [OF assms, of p FlowchartEl] show ?thesis by simp
qed

lemma coherent_show_result:
  assumes "coherent (vis s) (handles s)"
  shows "coherent (vis (snd (show_result p d s))) (handles (snd (show_result p d s)))"
proof -
  let ?s1 = "snd (show_concepts p d (show_text p d s))"
  have 1: "coherent (vis ?s1) (handles ?s1)" using assms by simp
  show ?thesis
  proof (cases "fst (show_concepts p d (show_text p d s))")
    case (Some e)
    with 1 show ?thesis by (simp add: show_result_def Let_def case_prod_beta)
  next
    case None
    from coherent_render_flowchart [OF coherent_render_mindmap [OF 1]] None show ?thesis
      by (simp add: show_result_def Let_def case_prod_beta)
  qed
qed

lemma coherent_submit_try:
  assumes "coherent (vis s) (handles s)"
  shows "coherent (vis (snd (submit_try p net f s))) (handles (snd (submit_try p net f s)))"
proof (cases "selected_files f")
  case None
  with assms show ?thesis by (simp add: submit_try_def Let_def)
next
  case (Some files)
  let ?s = "s\<lparr>sent := sent s @ [process_request (form_data f files)]\<rparr>"
  have 1: "coherent (vis ?s) (handles ?s)" using assms by simp
  show ?thesis
    using Some 1 coherent_show_result [OF 1]
    by (simp add: submit_try_def Let_def split: fetched.splits sum.splits)
qed

lemma coherent_submitForm:
  assumes "coherent (vis s) (handles s)"
  shows "coherent (vis (submitForm p net f s)) (handles (submitForm p net f s))"
proof -
  let ?s = "setBusy True (setStatus [] s)"
  have "coherent (vis ?s) (handles ?s)" using assms by simp
  from coherent_submit_try [OF this, of p net f] show ?thesis
    by (simp add: submitForm_def Let_def case_prod_beta split: option.splits)
qed

lemma coherent_submissions:
  "coherent (vis s) (handles s) \<Longrightarrow>
   coherent (vis (submissions p subs s)) (handles (submissions p subs s))"
  by (induction subs arbitrary: s) (auto simp: coherent_submitForm)

lemma coherent_loaded: "loaded s \<Longrightarrow> coherent (vis s) (handles s)"
  by (simp add: loaded_def coherent_def handles_def)

text \<open>
  C3. From the loaded page, after any sequence of submissions: at no moment of the calls
  made to the collaborator were two instances alive on one container (so each
  \<open>renderNetwork\<close> destroyed the previous instance before it created the next), the
  live instances are those the calls leave alive, and the handle stored for each
  container is the one live instance on it.
\<close>

theorem C3_one_instance_per_container:
  assumes "loaded s"
  shows "never_two (calls (vis (submissions p subs s)))
     \<and> live_after (calls (vis (submissions p subs s))) = live (vis (submissions p subs s))
     \<and> handle_of MindmapEl (live (vis (submissions p subs s))) (mindmapNetwork (submissions p subs s))
     \<and> handle_of FlowchartEl (live (vis (submissions p subs s))) (flowchartNetwork (submissions p subs s))"
  using coherent_submissions [OF coherent_loaded [OF assms], of p subs]
  by (simp add: coherent_def handles_def)

subsection \<open>The layouts\<close>

lemma created_append [simp]: "created (a @ b) = created a @ created b"
  by (induction a rule: created.induct) simp_all

lemma force_directed_default: "force_directed (render_options False)"
  by (simp add: force_directed_def render_options_def visOptions_def)

lemma hierarchical_when_asked: "hierarchical_left_to_right (render_options True)"
  by (simp add: hierarchical_left_to_right_def render_options_def visOptions_def)

lemma created_renderNetwork:
  "created (calls (snd (renderNetwork p (Some c) previous g hier w))) =
     created (calls w) @
       [\<lparr>inst_id = next_id w, inst_container = c,
         inst_nodes = items_or_empty p (graph_nodes g),
         inst_edges = items_or_empty p (graph_edges g),
         inst_options = render_options hier\<rparr>]"
  by (cases previous) (simp_all add: renderNetwork_def new_Network_def destroy_def Let_def)

lemma created_render_mindmap:
  "\<exists>new. created (calls (vis (render_mindmap p d s))) = created (calls (vis s)) @ new
         \<and> list_all layout_as_specified new"
proof (cases "truthy p (own_prop d (js ''mindmap'')) \<and> mindmapEl s")
  case False
  then have "created (calls (vis (render_mindmap p d s))) = created (calls (vis s)) @ []"
    by (auto simp: render_mindmap_def Let_def)
  then show ?thesis by (intro exI [of _ "[]"]) simp
next
  case True
  then show ?thesis
    by (simp add: render_mindmap_def Let_def case_prod_beta created_renderNetwork
        layout_as_specified_def force_directed_default)
qed

lemma created_render_flowchart:
  "\<exists>new. created (calls (vis (render_flowchart p d s))) = created (calls (vis s)) @ new
         \<and> list_all layout_as_specified new"
proof (cases "truthy p (own_prop d (js ''flowchart'')) \<and> flowchartEl s")
  case False
  then have "created (calls (vis (render_flowchart p d s))) = created (calls (vis s)) @ []"
    by (auto simp: render_flowchart_def Let_def)
  then show ?thesis by (intro exI [of _ "[]"]) simp
next
  case True
  then show ?thesis
    by (simp add: render_flowchart_def Let_def case_prod_beta created_renderNetwork
        layout_as_specified_def hierarchical_when_asked)
qed

lemma created_show_result:
  "\<exists>new. created (calls (vis (snd (show_result p d s)))) = created (calls (vis s)) @ new
         \<and> list_all layout_as_specified new"
proof (cases "fst (show_concepts p d (show_text p d s))")
  case (Some e)
  then have "created (calls (vis (snd (show_result p d s)))) = created (calls (vis s)) @ []"
    by (simp add: show_result_def Let_def case_prod_beta)
  then show ?thesis by (intro exI [of _ "[]"]) simp
next
  case None
  let ?s1 = "snd (show_concepts p d (show_text p d s))"
  obtain a where a: "created (calls (vis (render_mindmap p d ?s1))) = created (calls (vis ?s1)) @ a"
      "list_all layout_as_specified a"
    using created_render_mindmap by blast
  obtain b where b: "created (calls (vis (render_flowchart p d (render_mindmap p d ?s1)))) =
       created (calls (vis (render_mindmap p d ?s1))) @ b" "list_all layout_as_specified b"
    using created_render_flowchart by blast
  from None a b have "created (calls (vis (snd (show_result p d s)))) = created (calls (vis s)) @ (a @ b)"
    by (simp add: show_result_def Let_def case_prod_beta)
  with a b show ?thesis by (intro exI [of _ "a @ b"]) simp
qed

lemma created_submit_try:
  "\<exists>new. created (calls (vis (snd (submit_try p net f s)))) = created (calls (vis s)) @ new
         \<and> list_all layout_as_specified new"
proof -
  have trivial: "\<And>t. vis t = vis s \<Longrightarrow>
      \<exists>new. created (calls (vis t)) = created (calls (vis s)) @ new \<and> list_all layout_as_specified new"
    by (intro exI [of _ "[]"]) simp
  show ?thesis
  proof (cases "selected_files f")
    case None
    then show ?thesis by (intro trivial) (simp add: submit_try_def Let_def)
  next
    case (Some files)
    let ?s = "s\<lparr>sent := sent s @ [process_request (form_data f files)]\<rparr>"
    show ?thesis
    proof (cases "net (process_request (form_data f files))")
      case Rejected
      with Some show ?thesis by (intro trivial) (simp add: submit_try_def Let_def)
    next
      case (Responded res)
      show ?thesis
      proof (cases "ok res \<and> \<not> isl (read_data p res)")
        case False
        with Some Responded show ?thesis
          by (intro trivial) (auto simp: submit_try_def Let_def split: sum.splits)
      next
        case True
        then obtain d where "read_data p res = Inr d" by (cases "read_data p res") auto
        with True Some Responded have "snd (submit_try p net f s) = snd (show_result p d ?s)"
          by (simp add: submit_try_def Let_def)
        with created_show_result [of p d ?s] show ?thesis by simp
      qed
    qed
  qed
qed

lemma created_submitForm:
  "\<exists>new. created (calls (vis (submitForm p net f s))) = created (calls (vis s)) @ new
         \<and> list_all layout_as_specified new"
proof -
  have "vis (submitForm p net f s) = vis (snd (submit_try p net f (setBusy True (setStatus [] s))))"
    by (simp add: submitForm_def Let_def case_prod_beta split: option.splits)
  with created_submit_try [of p net f "setBusy True (setStatus [] s)"] show ?thesis by simp
qed

text \<open>
  Over any sequence of submissions, every instance created has the layout of its
  container.
\<close>

lemma layouts_of_all_created:
  "\<exists>new. created (calls (vis (submissions p subs s))) = created (calls (vis s)) @ new
         \<and> list_all layout_as_specified new"
proof (induction subs arbitrary: s)
  case Nil
  show ?case by (intro exI [of _ "[]"]) simp
next
  case (Cons sub subs)
  obtain net f where sub: "sub = (net, f)" by (cases sub)
  obtain a where a: "created (calls (vis (submitForm p net f s))) = created (calls (vis s)) @ a"
      "list_all layout_as_specified a"
    using created_submitForm by blast
  obtain b where b: "created (calls (vis (submissions p subs (submitForm p net f s)))) =
      created (calls (vis (submitForm p net f s))) @ b" "list_all layout_as_specified b"
    using Cons.IH by blast
  from a b sub show ?case by (intro exI [of _ "a @ b"]) simp
qed

subsection \<open>What a successful upload renders\<close>

lemma show_concepts_throws_same:
  assumes "conceptsEl t = None \<longleftrightarrow> conceptsEl s = None"
  shows "fst (show_concepts p d t) = fst (show_concepts p d s)"
proof -
  have r: "\<And>l. fst (renderConcepts p l t) = fst (renderConcepts p l s)"
    using assms by (cases "conceptsEl t"; cases "conceptsEl s")
      (simp_all add: renderConcepts_def case_prod_beta)
  show ?thesis
    by (simp add: show_concepts_def r split: option.splits json.splits)
qed

lemma renderNetwork_returns: "fst (renderNetwork p (Some c) previous g hier w) = Some (next_id w)"
  by (cases previous) (simp_all add: renderNetwork_def new_Network_def destroy_def Let_def)

lemma renderNetwork_next_id:
  "next_id (snd (renderNetwork p (Some c) previous g hier w)) = Suc (next_id w)"
  by (cases previous) (simp_all add: renderNetwork_def new_Network_def destroy_def Let_def)

lemma render_mindmap_skips:
  "\<not> (truthy p (own_prop d (js ''mindmap'')) \<and> mindmapEl s) \<Longrightarrow> render_mindmap p d s = s"
  by (auto simp: render_mindmap_def Let_def)

lemma render_mindmap_renders:
  assumes "truthy p (own_prop d (js ''mindmap''))" "mindmapEl s"
  shows "created (calls (vis (render_mindmap p d s))) =
     created (calls (vis s))
     @ [\<lparr>inst_id = next_id (vis s), inst_container = MindmapEl,
         inst_nodes = items_or_empty p (get_opt (own_prop d (js ''mindmap'')) (js ''nodes'')),
         inst_edges = items_or_empty p (get_opt (own_prop d (js ''mindmap'')) (js ''edges'')),
         inst_options = render_options False\<rparr>]"
    and "mindmapNetwork (render_mindmap p d s) = Some (next_id (vis s))"
    and "next_id (vis (render_mindmap p d s)) = Suc (next_id (vis s))"
  using assms
  by (simp_all add: render_mindmap_def Let_def case_prod_beta created_renderNetwork
        renderNetwork_returns renderNetwork_next_id graph_of_def)

lemma render_flowchart_skips:
  "\<not> (truthy p (own_prop d (js ''flowchart'')) \<and> flowchartEl s) \<Longrightarrow>
   render_flowchart p d s = s"
  by (auto simp: render_flowchart_def Let_def)

lemma render_flowchart_renders:
  assumes "truthy p (own_prop d (js ''flowchart''))" "flowchartEl s"
  shows "created (calls (vis (render_flowchart p d s))) =
     created (calls (vis s))
     @ [\<lparr>inst_id = next_id (vis s), inst_container = FlowchartEl,
         inst_nodes = items_or_empty p (get_opt (own_prop d (js ''flowchart'')) (js ''nodes'')),
         inst_edges = items_or_empty p (get_opt (own_prop d (js ''flowchart'')) (js ''edges'')),
         inst_options = render_options True\<rparr>]"
    and "flowchartNetwork (render_flowchart p d s) = Some (next_id (vis s))"
    and "next_id (vis (render_flowchart p d s)) = Suc (next_id (vis s))"
  using assms
  by (simp_all add: render_flowchart_def Let_def case_prod_beta created_renderNetwork
        renderNetwork_returns renderNetwork_next_id graph_of_def)

lemma submitForm_shows:
  assumes "selected_files f = Some files"
    and "net (process_request (form_data f files)) = Responded res"
    and "ok res" and "read_data p res = Inr data"
    and "fst (show_concepts p data s) = None"
  shows "\<exists>t. vis t = vis s \<and> mindmapNetwork t = mindmapNetwork s
           \<and> flowchartNetwork t = flowchartNetwork s
           \<and> mindmapEl t = mindmapEl s \<and> flowchartEl t = flowchartEl s
           \<and> vis (submitForm p net f s) = vis (render_flowchart p data (render_mindmap p data t))
           \<and> mindmapNetwork (submitForm p net f s)
               = mindmapNetwork (render_flowchart p data (render_mindmap p data t))
           \<and> flowchartNetwork (submitForm p net f s)
               = flowchartNetwork (render_flowchart p data (render_mindmap p data t))"
proof -
  let ?s0 = "(setBusy True (setStatus [] s))\<lparr>sent := sent (setBusy True (setStatus [] s))
               @ [process_request (form_data f files)]\<rparr>"
  let ?t = "snd (show_concepts p data (show_text p data ?s0))"
  have "fst (show_concepts p data (show_text p data ?s0)) = fst (show_concepts p data s)"
    by (rule show_concepts_throws_same) simp
  with assms(5) have c: "fst (show_concepts p data (show_text p data ?s0)) = None" by simp
  have r: "snd (show_result p data ?s0) =
      setStatus (done_message p data) (render_flowchart p data (render_mindmap p data ?t))"
    using c by (simp add: show_result_def Let_def case_prod_beta)
  have e: "fst (show_result p data ?s0) = None"
    using c by (simp add: show_result_def Let_def case_prod_beta)
  have "submitForm p net f s =
      setBusy False (setStatus (done_message p data)
        (render_flowchart p data (render_mindmap p data ?t)))"
    using assms(1-4) r e
    by (simp add: submitForm_def submit_try_def Let_def case_prod_beta)
  then show ?thesis
    by (intro exI [of _ ?t]) simp
qed


text \<open>
  C8. For every upload that succeeds (an ok response whose JSON body carries no error,
  and whose concepts render without an exception), from any page: when the body has a
  \<open>mindmap\<close> and the mindmap container exists, \<open>submitForm\<close> creates exactly one
  instance on that container, from the descriptor's nodes and edges, with the
  force-directed options (physics enabled, no hierarchical layout), and stores its
  handle; when the body has a \<open>flowchart\<close> and the flowchart container exists, it
  creates exactly one instance on that container with the hierarchical options (physics
  disabled, layered layout directed left to right) and stores its handle. Nothing else
  is created.
\<close>

theorem C8_upload_renders_layouts:
  assumes "selected_files f = Some files"
    and "net (process_request (form_data f files)) = Responded res"
    and "ok res" and "read_data p res = Inr data"
    and "fst (show_concepts p data s) = None"
    and "mindmap = own_prop data (js ''mindmap'')"
    and "flowchart = own_prop data (js ''flowchart'')"
    and "M = (truthy p mindmap \<and> mindmapEl s)"
    and "F = (truthy p flowchart \<and> flowchartEl s)"
    and "after = submitForm p net f s"
  shows "created (calls (vis after)) =
       created (calls (vis s))
       @ (if M then [\<lparr>inst_id = next_id (vis s), inst_container = MindmapEl,
                      inst_nodes = items_or_empty p (get_opt mindmap (js ''nodes'')),
                      inst_edges = items_or_empty p (get_opt mindmap (js ''edges'')),
                      inst_options = render_options False\<rparr>]
          else [])
       @ (if F then [\<lparr>inst_id = next_id (vis s) + (if M then 1 else 0),
                      inst_container = FlowchartEl,
                      inst_nodes = items_or_empty p (get_opt flowchart (js ''nodes'')),
                      inst_edges = items_or_empty p (get_opt flowchart (js ''edges'')),
                      inst_options = render_options True\<rparr>]
          else [])
     \<and> mindmapNetwork after = (if M then Some (next_id (vis s)) else mindmapNetwork s)
     \<and> flowchartNetwork after =
         (if F then Some (next_id (vis s) + (if M then 1 else 0)) else flowchartNetwork s)
     \<and> force_directed (render_options False)
     \<and> hierarchical_left_to_right (render_options True)"
proof -
  obtain t where t: "vis t = vis s" "mindmapNetwork t = mindmapNetwork s"
      "flowchartNetwork t = flowchartNetwork s" "mindmapEl t = mindmapEl s"
      "flowchartEl t = flowchartEl s"
    and a: "vis after = vis (render_flowchart p data (render_mindmap p data t))"
      "mindmapNetwork after = mindmapNetwork (render_flowchart p data (render_mindmap p data t))"
      "flowchartNetwork after = flowchartNetwork (render_flowchart p data (render_mindmap p data t))"
    using submitForm_shows [of f files net res p data s] assms(1-5,10) by blast
  let ?m = "render_mindmap p data t"
  have el: "flowchartEl ?m = flowchartEl s" "flowchartNetwork ?m = flowchartNetwork s"
    using t by simp_all
  have layouts: "force_directed (render_options False)"
      "hierarchical_left_to_right (render_options True)"
    by (rule force_directed_default, rule hierarchical_when_asked)
  show ?thesis
  proof (cases M)
    case True
    with assms(6,8) t have m: "truthy p (own_prop data (js ''mindmap''))" "mindmapEl t" by simp_all
    note mm = render_mindmap_renders [OF m]
    show ?thesis
    proof (cases F)
      case True
      with assms(7,9) el have f: "truthy p (own_prop data (js ''flowchart''))" "flowchartEl ?m"
        by simp_all
      note ff = render_flowchart_renders [OF f]
      from \<open>M\<close> \<open>F\<close> a mm ff t layouts assms(6,7) show ?thesis by simp
    next
      case False
      with assms(7,9) el have "\<not> (truthy p (own_prop data (js ''flowchart'')) \<and> flowchartEl ?m)"
        by simp
      then have "render_flowchart p data ?m = ?m" by (rule render_flowchart_skips)
      with \<open>M\<close> \<open>\<not> F\<close> a mm t el layouts assms(6,7) show ?thesis by simp
    qed
  next
    case False
    with assms(6,8) t have "\<not> (truthy p (own_prop data (js ''mindmap'')) \<and> mindmapEl t)" by simp
    then have skip: "?m = t" by (rule render_mindmap_skips)
    show ?thesis
    proof (cases F)
      case True
      with assms(7,9) t have f: "truthy p (own_prop data (js ''flowchart''))" "flowchartEl t"
        by simp_all
      note ff = render_flowchart_renders [OF f]
      from \<open>\<not> M\<close> \<open>F\<close> a skip ff t layouts assms(6,7) show ?thesis by simp
    next
      case False
      with assms(7,9) t have "\<not> (truthy p (own_prop data (js ''flowchart'')) \<and> flowchartEl t)"
        by simp
      then have "render_flowchart p data t = t" by (rule render_flowchart_skips)
      with \<open>\<not> M\<close> \<open>\<not> F\<close> a skip t layouts assms(6,7) show ?thesis by simp
    qed
  qed
qed

subsection \<open>A successful upload, evaluated\<close>

lemma read_result: "read_data sample_platform result_response = Inr result_data"
  by (simp add: read_data_def result_response_def result_data_def is_json_type_def res_json_def
      get_def own_prop_def truthy_def js_def)

lemma ok_result: "ok result_response"
  by (simp add: ok_def result_response_def)

lemma concepts_result: "show_concepts sample_platform result_data s = (None, s)"
  by (simp add: show_concepts_def result_data_def own_prop_def get_opt_def js_def)

lemma graphs_result:
  "own_prop result_data (js ''mindmap'') = Some graph_json"
  "own_prop result_data (js ''flowchart'') = Some graph_json"
  by (simp_all add: result_data_def own_prop_def js_def)

lemma truthy_graph: "truthy p (Some graph_json)"
  by (simp add: truthy_def graph_json_def)

lemma upload_renders:
  assumes "mindmapEl s" "flowchartEl s"
  shows "vis (submitForm sample_platform (\<lambda>req. Responded result_response) one_file_form s) =
     snd (renderNetwork sample_platform (Some FlowchartEl) (flowchartNetwork s)
            (graph_of (Some graph_json)) True
       (snd (renderNetwork sample_platform (Some MindmapEl) (mindmapNetwork s)
            (graph_of (Some graph_json)) False (vis s))))"
  and "mindmapNetwork (submitForm sample_platform (\<lambda>req. Responded result_response) one_file_form s) =
     fst (renderNetwork sample_platform (Some MindmapEl) (mindmapNetwork s)
            (graph_of (Some graph_json)) False (vis s))"
  and "flowchartNetwork (submitForm sample_platform (\<lambda>req. Responded result_response) one_file_form s) =
     fst (renderNetwork sample_platform (Some FlowchartEl) (flowchartNetwork s)
            (graph_of (Some graph_json)) True
       (snd (renderNetwork sample_platform (Some MindmapEl) (mindmapNetwork s)
            (graph_of (Some graph_json)) False (vis s))))"
  and "mindmapEl (submitForm sample_platform (\<lambda>req. Responded result_response) one_file_form s)"
  and "flowchartEl (submitForm sample_platform (\<lambda>req. Responded result_response) one_file_form s)"
  using assms
  by (simp_all add: submitForm_def submit_try_def one_file_selected ok_result read_result Let_def
      show_result_def concepts_result render_mindmap_def render_flowchart_def graphs_result
      truthy_graph case_prod_beta)

lemma renderNetwork_replaces:
  "fst (renderNetwork p (Some c) (Some h) g hier w) = Some (next_id w)"
  "calls (snd (renderNetwork p (Some c) (Some h) g hier w)) =
     calls w @ [Destroyed h,
       Created \<lparr>inst_id = next_id w, inst_container = c,
         inst_nodes = items_or_empty p (graph_nodes g),
         inst_edges = items_or_empty p (graph_edges g),
         inst_options = render_options hier\<rparr>]"
  by (simp_all add: renderNetwork_def new_Network_def destroy_def Let_def)

subsection \<open>The older copy\<close>

lemma renderNetwork_old_same:
  "renderNetwork_old p c previous g hier w = renderNetwork p (Some c) previous g hier w"
  by (simp add: renderNetwork_old_def renderNetwork_def)

lemma old_copy_flowchart_not_hierarchical:
  assumes "truthy p (own_prop d (js ''flowchart''))" and "flowchartEl s"
  shows "\<exists>i. created (calls (vis (render_flowchart_old p d s))) = created (calls (vis s)) @ [i]
           \<and> inst_container i = FlowchartEl \<and> force_directed (inst_options i)"
  using assms
  by (simp add: render_flowchart_old_def renderNetwork_old_same created_renderNetwork Let_def
      case_prod_beta force_directed_default)

lemma old_copy_same_files:
  "el_files f \<noteq> None \<Longrightarrow> el_fileInput f = None \<Longrightarrow>
   selected_files_old f = Inr (selected_files f)"
  by (auto simp: selected_files_old_def selected_files_def first_found_def split: option.splits)

lemma old_copy_same_form_data:
  assumes "el_lang f = Some language" "el_top_k f = Some top_k" "el_ocrEngine f = Some engine"
    "el_messy f = Some messy"
  shows "form_data_old f files = Inr (form_data f files)"
  using assms by (simp add: form_data_old_def form_data_def first_found_def value_or_def Let_def)

lemma old_copy_surfaces_error_field:
  "read_data_old sample_platform boom_response = Inl (Error (js ''boom''))"
  by (simp add: read_data_old_def boom_response_def res_json_def get_def own_prop_def ok_def
      or_else_def truthy_def string_of_def)

lemma loaded_blank: "loaded blank_page"
  by (simp add: loaded_def blank_page_def)

lemma first_upload:
  "map call_handle (calls (vis (submissions sample_platform [upload] blank_page))) = [Inl 0, Inl 1]"
  "map inst_id (live (vis (submissions sample_platform [upload] blank_page))) = [0, 1]"
  "map inst_container (created (calls (vis (submissions sample_platform [upload] blank_page))))
     = [MindmapEl, FlowchartEl]"
  "map (\<lambda>i. physics_enabled (physics (inst_options i)))
     (created (calls (vis (submissions sample_platform [upload] blank_page)))) = [True, False]"
  by (simp_all add: upload_def upload_renders blank_page_def renderNetwork_def new_Network_def
      destroy_def Let_def call_handle_def render_options_def visOptions_def)

lemma second_upload:
  "map call_handle (calls (vis (submissions sample_platform [upload, upload] blank_page)))
     = [Inl 0, Inl 1, Inr 0, Inl 2, Inr 1, Inl 3]"
  "map inst_id (live (vis (submissions sample_platform [upload, upload] blank_page))) = [2, 3]"
  "mindmapNetwork (submissions sample_platform [upload, upload] blank_page) = Some 2"
  "flowchartNetwork (submissions sample_platform [upload, upload] blank_page) = Some 3"
  by (simp_all add: upload_def upload_renders blank_page_def renderNetwork_def new_Network_def
      destroy_def Let_def call_handle_def)

text \<open>
  Two uploads in a row: the second destroys instance 0 before it creates 2, and 1 before
  it creates 3.
\<close>

theorem C3_two_uploads:
  "never_two (calls (vis (submissions sample_platform [upload, upload] blank_page)))
   \<and> handle_of MindmapEl (live (vis (submissions sample_platform [upload, upload] blank_page))) (Some 2)
   \<and> handle_of FlowchartEl (live (vis (submissions sample_platform [upload, upload] blank_page))) (Some 3)
   \<and> map inst_id (live (vis (submissions sample_platform [upload, upload] blank_page))) = [2, 3]
   \<and> map call_handle (calls (vis (submissions sample_platform [upload, upload] blank_page)))
       = [Inl 0, Inl 1, Inr 0, Inl 2, Inr 1, Inl 3]"
  using C3_one_instance_per_container [OF loaded_blank, of sample_platform "[upload, upload]"]
  by (simp only: second_upload simp_thms)

lemma after_first_upload:
  "mindmapEl (submitForm sample_platform (\<lambda>req. Responded result_response) one_file_form blank_page)"
  "flowchartEl (submitForm sample_platform (\<lambda>req. Responded result_response) one_file_form blank_page)"
  "next_id (vis (submitForm sample_platform (\<lambda>req. Responded result_response) one_file_form blank_page)) = 2"
  by (simp_all add: upload_renders blank_page_def renderNetwork_def new_Network_def
      destroy_def Let_def)

lemma graph_items:
  "items_or_empty sample_platform (get_opt (Some graph_json) (js ''nodes''))
     = JArr [JObj [(js ''id'', JNum 1), (js ''label'', JStr (js ''a''))]]"
  "items_or_empty sample_platform (get_opt (Some graph_json) (js ''edges'')) = JArr []"
  by (simp_all add: items_or_empty_def get_opt_def graph_json_def own_prop_def truthy_def js_def)

text \<open>
  A second upload from the page that the first one leaves: instances 2 and 3 are created,
  force-directed on the mindmap container and hierarchical on the flowchart container.
\<close>

theorem C8_second_upload:
  "created (calls (vis (submissions sample_platform [upload, upload] blank_page))) =
     created (calls (vis (submissions sample_platform [upload] blank_page)))
     @ [\<lparr>inst_id = 2, inst_container = MindmapEl,
         inst_nodes = JArr [JObj [(js ''id'', JNum 1), (js ''label'', JStr (js ''a''))]],
         inst_edges = JArr [], inst_options = render_options False\<rparr>,
        \<lparr>inst_id = 3, inst_container = FlowchartEl,
         inst_nodes = JArr [JObj [(js ''id'', JNum 1), (js ''label'', JStr (js ''a''))]],
         inst_edges = JArr [], inst_options = render_options True\<rparr>]
   \<and> mindmapNetwork (submissions sample_platform [upload, upload] blank_page) = Some 2
   \<and> flowchartNetwork (submissions sample_platform [upload, upload] blank_page) = Some 3
   \<and> force_directed (render_options False)
   \<and> hierarchical_left_to_right (render_options True)"
proof -
  let ?net = "(\<lambda>req. Responded result_response) :: request \<Rightarrow> int fetched"
  let ?s1 = "submitForm sample_platform ?net one_file_form blank_page"
  have answer: "?net (process_request (form_data one_file_form [Upload (js ''notes.png'') 1024]))
      = Responded result_response"
    by simp
  have concepts: "fst (show_concepts sample_platform result_data ?s1) = None"
    by (simp add: concepts_result)
  have m: "True = (truthy sample_platform (Some graph_json) \<and> mindmapEl ?s1)"
    by (simp add: truthy_graph after_first_upload)
  have f: "True = (truthy sample_platform (Some graph_json) \<and> flowchartEl ?s1)"
    by (simp add: truthy_graph after_first_upload)
  from C8_upload_renders_layouts [of one_file_form "[Upload (js ''notes.png'') 1024]" ?net
      result_response sample_platform result_data ?s1 "Some graph_json" "Some graph_json"
      True True "submitForm sample_platform ?net one_file_form ?s1",
      OF one_file_selected answer ok_result read_result concepts
        graphs_result(1) [symmetric] graphs_result(2) [symmetric] m f refl]
  show ?thesis
    by (simp add: upload_def after_first_upload graph_items)
qed


end
